theory Spec2Isabelle
  imports Complex_Main "HOL-Library.Countable"
begin

section \<open>Python values, errors and indexing\<close>

text \<open>
  The exceptions the modelled code can raise. A failed \<^verbatim>\<open>assert\<close> is an
  AssertionError; reading a local variable that no branch assigned is an
  UnboundLocalError; numpy refuses the truth value of an array with more than one
  element with a ValueError.
\<close>

datatype py_error =
  AssertionError | NotImplementedError | ValueError | IndexError
  | UnboundLocalError | AttributeError | ZeroDivisionError

text \<open>Sequencing of fallible steps: the first error ends the computation.\<close>

definition bind_err :: "py_error + 'a \<Rightarrow> ('a \<Rightarrow> py_error + 'b) \<Rightarrow> py_error + 'b" where
  "bind_err m f = (case m of Inl e \<Rightarrow> Inl e | Inr x \<Rightarrow> f x)"

definition py_assert :: "bool \<Rightarrow> py_error + unit" where
  "py_assert c = (if c then Inr () else Inl AssertionError)"

text \<open>
  Python indexing of a sequence of length \<open>n\<close> with an integer \<open>k\<close>: a negative
  index counts from the end, an index outside \<open>-n .. n-1\<close> raises IndexError.
\<close>

definition py_index :: "nat \<Rightarrow> int \<Rightarrow> py_error + nat" where
  "py_index n k =
     (let j = (if k < 0 then int n + k else k)
      in if 0 \<le> j \<and> j < int n then Inr (nat j) else Inl IndexError)"

definition py_getitem :: "'a list \<Rightarrow> int \<Rightarrow> py_error + 'a" where
  "py_getitem xs k = bind_err (py_index (length xs) k) (\<lambda>i. Inr (xs ! i))"

definition py_setitem :: "'a list \<Rightarrow> int \<Rightarrow> 'a \<Rightarrow> py_error + 'a list" where
  "py_setitem xs k v = bind_err (py_index (length xs) k) (\<lambda>i. Inr (xs[i := v]))"

text \<open>\<^verbatim>\<open>u[k] += v\<close>: read, add, write back at the same index.\<close>

definition py_iadd :: "('a::plus) list \<Rightarrow> int \<Rightarrow> 'a \<Rightarrow> py_error + 'a list" where
  "py_iadd xs k v = bind_err (py_index (length xs) k) (\<lambda>i. Inr (xs[i := xs ! i + v]))"

section \<open>BoundaryValues\<close>

text \<open>
  The object holds the processed boundary data \<open>bcs\<close> and \<open>bcs_final\<close> (two-element
  lists in the source, pairs here) and four indices along the axis of its basis.
  \<^verbatim>\<open>__init__\<close> sets them to 0, 1, -1 and -2; \<^verbatim>\<open>set_slices(T)\<close> sets them to
  \<^verbatim>\<open>T.sl(0)\<close>, \<^verbatim>\<open>T.sl(1)\<close>, \<^verbatim>\<open>T.sl(-1)\<close> and \<^verbatim>\<open>T.sl(-2)\<close>. The helper \<^verbatim>\<open>sl\<close> is
  not among the sources; it builds the index tuple that selects one position along the
  axis of the basis and everything along the other axes. A coefficient array is
  represented here along that axis, as the list of its slabs, so \<^verbatim>\<open>T.sl(k)\<close> is the
  Python index \<open>k\<close>. The values are dynamically typed in Python; the type parameter
  \<open>'v\<close> is their representation.
\<close>

record 'v boundary_values =
  bv_bc :: "'v \<times> 'v"
  bcs :: "'v \<times> 'v"
  bcs_final :: "'v \<times> 'v"
  sl0 :: int
  sl1 :: int
  slm1 :: int
  slm2 :: int
  bv_axis :: nat

definition set_slices :: "'v boundary_values \<Rightarrow> 'v boundary_values" where
  "set_slices self = self\<lparr>sl0 := 0, sl1 := 1, slm1 := -1, slm2 := -2\<rparr>"

text \<open>
  \<^verbatim>\<open>
  def apply_before(self, u, final=False, scales=(0.5, 0.5)):
      if final is True:
          u[self.sl0] += scales[0]*(self.bcs_final[0] + self.bcs_final[1])
          u[self.sl1] += scales[1]*(self.bcs_final[0] - self.bcs_final[1])
      else:
          u[self.sl0] += scales[0]*(self.bcs[0] + self.bcs[1])
          u[self.sl1] += scales[1]*(self.bcs[0] - self.bcs[1])
  \<close>
  The slabs form a ring with the pointwise operations of numpy; a scalar stands for
  the slab it broadcasts to.
\<close>

definition apply_before ::
  "('v::ring) boundary_values \<Rightarrow> 'v list \<Rightarrow> bool \<Rightarrow> 'v \<times> 'v \<Rightarrow> py_error + 'v list" where
  "apply_before self u final scales =
     (if final then
        bind_err (py_iadd u (sl0 self) (fst scales * (fst (bcs_final self) + snd (bcs_final self))))
          (\<lambda>u1. py_iadd u1 (sl1 self) (snd scales * (fst (bcs_final self) - snd (bcs_final self))))
      else
        bind_err (py_iadd u (sl0 self) (fst scales * (fst (bcs self) + snd (bcs self))))
          (\<lambda>u1. py_iadd u1 (sl1 self) (snd scales * (fst (bcs self) - snd (bcs self)))))"

text \<open>
  \<^verbatim>\<open>
  def apply_after(self, u, final=False):
      if final is True:
          u[self.slm2] = self.bcs_final[0]
          u[self.slm1] = self.bcs_final[1]
      else:
          u[self.slm2] = self.bcs[0]
          u[self.slm1] = self.bcs[1]
  \<close>
\<close>

definition apply_after ::
  "'v boundary_values \<Rightarrow> 'v list \<Rightarrow> bool \<Rightarrow> py_error + 'v list" where
  "apply_after self u final =
     (if final then
        bind_err (py_setitem u (slm2 self) (fst (bcs_final self)))
          (\<lambda>u1. py_setitem u1 (slm1 self) (snd (bcs_final self)))
      else
        bind_err (py_setitem u (slm2 self) (fst (bcs self)))
          (\<lambda>u1. py_setitem u1 (slm1 self) (snd (bcs self))))"

text \<open>
  The raw boundary data. \<^verbatim>\<open>update_bcs\<close> accepts, for each of the two entries, a
  \<^verbatim>\<open>Number\<close>, a \<^verbatim>\<open>sympy.Expr\<close> or a \<^verbatim>\<open>np.ndarray\<close> and raises NotImplementedError
  for anything else. A sympy expression is either the number zero or another
  expression (given by its printed form); an array is given by its elements.
\<close>

datatype sympy_expr = SympyZero | SympyExpr string

datatype bcval = Number real | Expr sympy_expr | NdArray "real list"

text \<open>
  The result of \<^verbatim>\<open>x == 0\<close>: a Python bool for a number and for a sympy expression
  (structural equality), an array of bools, element by element, for an array.
\<close>

datatype py_truthy = PyBool bool | BoolArray "bool list"

fun eq_zero :: "bcval \<Rightarrow> py_truthy" where
  "eq_zero (Number r) = PyBool (r = 0)"
| "eq_zero (Expr e) = PyBool (e = SympyZero)"
| "eq_zero (NdArray xs) = BoolArray (map (\<lambda>x. x = 0) xs)"

text \<open>
  The truth value Python takes of it in a condition (\<^verbatim>\<open>if\<close>, \<^verbatim>\<open>and\<close>): numpy
  answers for an array of one element with that element, for an empty array with
  False, and raises ValueError for an array of more than one element.
\<close>

fun truth :: "py_truthy \<Rightarrow> py_error + bool" where
  "truth (PyBool b) = Inr b"
| "truth (BoolArray []) = Inr False"
| "truth (BoolArray [b]) = Inr b"
| "truth (BoolArray (b # c # bs)) = Inl ValueError"

text \<open>
  \<^verbatim>\<open>
  def __init__(self, T, bc=(0, 0)):
      self.T = T
      self.bc = bc
      self.bcs = [0, 0]
      self.bcs_final = [0, 0]
      self.sl0 = 0
      self.sl1 = 1
      self.slm1 = -1
      self.slm2 = -2
      self.axis = 0
      self.update_bcs(bc=bc)
  \<close>
  \<^verbatim>\<open>update_bcs(bc=bc)\<close>, with no sympy parameters, stores \<open>bc\<close> and copies its two
  entries to \<open>bcs\<close> and then \<open>bcs\<close> to \<open>bcs_final\<close>; its assertions (a list or tuple of
  length 2, entries of the three kinds) hold for every pair of \<open>bcval\<close>.
\<close>

definition update_bcs :: "bcval boundary_values \<Rightarrow> bcval \<times> bcval \<Rightarrow> bcval boundary_values" where
  "update_bcs self bc = self\<lparr>bv_bc := bc, bcs := bc, bcs_final := bc\<rparr>"

definition BoundaryValues_init :: "bcval \<times> bcval \<Rightarrow> bcval boundary_values" where
  "BoundaryValues_init bc =
     update_bcs \<lparr>bv_bc = bc, bcs = (Number 0, Number 0), bcs_final = (Number 0, Number 0),
                 sl0 = 0, sl1 = 1, slm1 = -1, slm2 = -2, bv_axis = 0\<rparr> bc"

text \<open>
  \<^verbatim>\<open>
  def has_nonhomogeneous_bcs(self):
      if self.bcs[0] == 0 and self.bcs[1] == 0:
          return False
      return True
  \<close>
  \<^verbatim>\<open>and\<close> takes the truth value of its left operand first and evaluates the right
  one only when the left one is true.
\<close>

definition has_nonhomogeneous_bcs :: "bcval boundary_values \<Rightarrow> py_error + bool" where
  "has_nonhomogeneous_bcs self =
     bind_err (truth (eq_zero (fst (bcs self))))
       (\<lambda>z0. if z0 then bind_err (truth (eq_zero (snd (bcs self)))) (\<lambda>z1. Inr (\<not> z1))
              else Inr True)"

section \<open>Basis classes: \<^verbatim>\<open>SpectralBase.__eq__\<close> and \<^verbatim>\<open>__hash__\<close>\<close>

text \<open>
  The basis classes the sources name: \<^verbatim>\<open>shenfun.fourier.bases\<close> (R2CBasis, C2CBasis),
  \<^verbatim>\<open>shenfun.legendre.bases\<close> (Basis, ShenDirichletBasis, ShenNeumannBasis,
  ShenBiharmonicBasis, SecondNeumannBasis) and \<^verbatim>\<open>shenfun.chebyshev.bases\<close>
  (ShenDirichletBasis, which tensorproductspace.py tests for).
\<close>

datatype basis_class =
  R2CBasis | C2CBasis
  | LegendreBasis | LegendreShenDirichletBasis | LegendreShenNeumannBasis
  | LegendreShenBiharmonicBasis | LegendreSecondNeumannBasis
  | ChebyshevShenDirichletBasis

fun class_module :: "basis_class \<Rightarrow> string" where
  "class_module R2CBasis = ''shenfun.fourier.bases''"
| "class_module C2CBasis = ''shenfun.fourier.bases''"
| "class_module ChebyshevShenDirichletBasis = ''shenfun.chebyshev.bases''"
| "class_module _ = ''shenfun.legendre.bases''"

text \<open>\<^verbatim>\<open>cls.__name__\<close>\<close>

fun class_name :: "basis_class \<Rightarrow> string" where
  "class_name R2CBasis = ''R2CBasis''"
| "class_name C2CBasis = ''C2CBasis''"
| "class_name LegendreBasis = ''Basis''"
| "class_name LegendreShenDirichletBasis = ''ShenDirichletBasis''"
| "class_name LegendreShenNeumannBasis = ''ShenNeumannBasis''"
| "class_name LegendreShenBiharmonicBasis = ''ShenBiharmonicBasis''"
| "class_name LegendreSecondNeumannBasis = ''SecondNeumannBasis''"
| "class_name ChebyshevShenDirichletBasis = ''ShenDirichletBasis''"

text \<open>\<^verbatim>\<open>repr(cls)\<close>, for instance \<^verbatim>\<open><class 'shenfun.fourier.bases.R2CBasis'>\<close>.\<close>

definition class_repr :: "basis_class \<Rightarrow> string" where
  "class_repr c =
     ''<class '' @ [CHR 0x27] @ class_module c @ ''.'' @ class_name c @ [CHR 0x27] @ ''>''"

text \<open>
  What a basis is constructed from: its class, the number of quadrature points, the
  quadrature rule, the domain and the padding factor. A Dirichlet basis also owns a
  BoundaryValues object (\<^verbatim>\<open>self.bc = BoundaryValues(self, bc=bc)\<close>); the field is not
  read for the other classes.
\<close>

record basis =
  b_cls :: basis_class
  b_N :: int
  b_quad :: string
  b_domain :: "real \<times> real"
  b_padding_factor :: real
  b_bc :: "bcval boundary_values"

text \<open>
  \<^verbatim>\<open>def __eq__(self, other): return self.__class__.__name__ == other.__class__.__name__\<close>
\<close>

definition basis_eq :: "basis \<Rightarrow> basis \<Rightarrow> bool" where
  "basis_eq self other = (class_name (b_cls self) = class_name (b_cls other))"

text \<open>
  \<^verbatim>\<open>def __hash__(self): return hash(repr(self.__class__))\<close>; Python's hash of a string
  is the parameter \<open>str_hash\<close>.
\<close>

definition basis_hash :: "(string \<Rightarrow> int) \<Rightarrow> basis \<Rightarrow> int" where
  "basis_hash str_hash self = str_hash (class_repr (b_cls self))"

section \<open>TensorProductSpace\<close>

definition is_dirichlet :: "basis_class \<Rightarrow> bool" where
  "is_dirichlet c = (c = LegendreShenDirichletBasis \<or> c = ChebyshevShenDirichletBasis)"

text \<open>\<^verbatim>\<open>np.round\<close> rounds to the nearest integer, a half to the even neighbour.\<close>

definition np_round :: "real \<Rightarrow> int" where
  "np_round x =
     (let f = \<lfloor>x\<rfloor>
      in if x - of_int f < 1/2 then f
         else if 1/2 < x - of_int f then f + 1
         else if even f then f else f + 1)"

text \<open>
  \<^verbatim>\<open>shape()\<close>: \<^verbatim>\<open>[int(np.round(base.N*base.padding_factor)) for base in self]\<close>
\<close>

definition tps_shape :: "basis list \<Rightarrow> int list" where
  "tps_shape bs = map (\<lambda>b. np_round (of_int (b_N b) * b_padding_factor b)) bs"

text \<open>\<^verbatim>\<open>min\<close> and \<^verbatim>\<open>max\<close> of a list raise ValueError on the empty list.\<close>

definition py_min :: "int list \<Rightarrow> py_error + int" where
  "py_min xs = (case xs of [] \<Rightarrow> Inl ValueError | x # r \<Rightarrow> Inr (fold min r x))"

definition py_max :: "int list \<Rightarrow> py_error + int" where
  "py_max xs = (case xs of [] \<Rightarrow> Inl ValueError | x # r \<Rightarrow> Inr (fold max r x))"

text \<open>
  The \<^verbatim>\<open>axes\<close> argument: absent, one integer (\<^verbatim>\<open>np.ndim(axes)\<close> is 0) or a sequence.
  \<^verbatim>\<open>
  if axes is not None:
      axes = list(axes) if np.ndim(axes) else [axes]
      for i, axis in enumerate(axes):
          if axis < 0:
              axes[i] = axis + len(shape)
  else:
      axes = list(range(len(shape)))
  assert min(axes) >= 0
  assert max(axes) < len(shape)
  assert 0 < len(axes) <= len(shape)
  assert sorted(axes) == sorted(set(axes))
  \<close>
  \<^verbatim>\<open>sorted(set(axes))\<close> is the sorted list of the distinct entries.
\<close>

datatype axes_arg = AxesNone | AxesInt int | AxesSeq "int list"

definition normalize_axes :: "nat \<Rightarrow> axes_arg \<Rightarrow> int list" where
  "normalize_axes n axes =
     (case axes of
        AxesNone \<Rightarrow> map int [0..<n]
      | AxesInt a \<Rightarrow> [if a < 0 then a + int n else a]
      | AxesSeq xs \<Rightarrow> map (\<lambda>a. if a < 0 then a + int n else a) xs)"

definition resolve_axes :: "nat \<Rightarrow> axes_arg \<Rightarrow> py_error + int list" where
  "resolve_axes n axes =
     (let ax = normalize_axes n axes
      in bind_err (py_min ax) (\<lambda>lo.
         bind_err (py_assert (0 \<le> lo)) (\<lambda>_.
         bind_err (py_max ax) (\<lambda>hi.
         bind_err (py_assert (hi < int n)) (\<lambda>_.
         bind_err (py_assert (0 < length ax \<and> length ax \<le> n)) (\<lambda>_.
         bind_err (py_assert (sort ax = sort (remdups ax))) (\<lambda>_.
         Inr ax)))))))"

text \<open>
  The dtype, given by the character code of \<^verbatim>\<open>np.dtype(dtype).char\<close>: \<open>f\<close>, \<open>d\<close>, \<open>g\<close>
  are the real floating types, \<open>F\<close>, \<open>D\<close>, \<open>G\<close> the complex ones; \<^verbatim>\<open>np.float\<close> is
  \<open>d\<close> and \<^verbatim>\<open>np.complex\<close> is \<open>D\<close>.
  \<^verbatim>\<open>
  if dtype is None:
      dtype = np.complex if isinstance(bases[axes[-1]], C2CBasis) else np.float
  else:
      if isinstance(bases[axes[-1]], C2CBasis):
          assert np.dtype(dtype).char in 'FDG'
      elif isinstance(bases[axes[-1]], R2CBasis):
          assert np.dtype(dtype).char in 'fdg'
  dtype = self.dtype = np.dtype(dtype)
  assert dtype.char in 'fdgFDG'
  \<close>
\<close>

definition infer_dtype :: "basis_class \<Rightarrow> char option \<Rightarrow> py_error + char" where
  "infer_dtype last_cls dtype =
     bind_err
       (case dtype of
          None \<Rightarrow> Inr (if last_cls = C2CBasis then CHR ''D'' else CHR ''d'')
        | Some c \<Rightarrow>
            if last_cls = C2CBasis then bind_err (py_assert (c \<in> set ''FDG'')) (\<lambda>_. Inr c)
            else if last_cls = R2CBasis then bind_err (py_assert (c \<in> set ''fdg'')) (\<lambda>_. Inr c)
            else Inr c)
       (\<lambda>c. bind_err (py_assert (c \<in> set ''fdgFDG'')) (\<lambda>_. Inr c))"

text \<open>
  The communicator: a plain one, or a \<^verbatim>\<open>Subcomm\<close> given by the sizes of its
  sub-communicators.
  \<^verbatim>\<open>
  if isinstance(comm, Subcomm):
      assert slab is False
      assert len(comm) == len(shape)
      assert comm[axes[-1]].Get_size() == 1
      self.subcomm = comm
  else:
      ...
      self.subcomm = Subcomm(comm, dims)
  \<close>
\<close>

datatype comm_arg = Intracomm | Subcomm "nat list"

definition check_comm :: "comm_arg \<Rightarrow> bool \<Rightarrow> nat \<Rightarrow> int \<Rightarrow> py_error + unit" where
  "check_comm comm slab n last_axis =
     (case comm of
        Intracomm \<Rightarrow> Inr ()
      | Subcomm sizes \<Rightarrow>
          bind_err (py_assert (\<not> slab)) (\<lambda>_.
          bind_err (py_assert (length sizes = n)) (\<lambda>_.
          bind_err (py_getitem sizes last_axis) (\<lambda>sz.
          py_assert (sz = 1)))))"

subsection \<open>Wiring the boundary values: \<^verbatim>\<open>set_tensor_bcs\<close>\<close>

text \<open>
  The collaborators of \<^verbatim>\<open>set_tensor_bcs\<close> that are not part of the sources are
  parameters: the array \<open>b\<close> of boundary data built from the raw values (one function
  for each of the three kinds the source distinguishes by the kind of \<^verbatim>\<open>bc[0]\<close>), the
  planned local transform of stage \<open>i\<close> (\<^verbatim>\<open>T.forward._xfftn[i]\<close>), the redistribution
  after stage \<open>i\<close> (\<^verbatim>\<open>T.forward._transfer[i]\<close>), and the slab of an array at an index
  along the axis of the Dirichlet basis (\<^verbatim>\<open>b_hat[self.slm2].copy()\<close>).
\<close>

record 'arr pipeline =
  b_of_expr :: "bcval \<Rightarrow> bcval \<Rightarrow> 'arr"
  b_of_number :: "bcval \<Rightarrow> bcval \<Rightarrow> 'arr"
  b_of_array :: "bcval \<Rightarrow> 'arr"
  run_xfftn :: "nat \<Rightarrow> 'arr \<Rightarrow> 'arr"
  run_transfer :: "nat \<Rightarrow> 'arr \<Rightarrow> 'arr"
  slab_of :: "int \<Rightarrow> 'arr \<Rightarrow> bcval"

text \<open>
  What is executed on the boundary data, in order: a local transform, the plain copy
  of a stage's input to its output (the Dirichlet stage), a redistribution.
\<close>

datatype stage_op = RunXfftn nat | CopyThrough nat | RunTransfer nat

fun run_op :: "'arr pipeline \<Rightarrow> stage_op \<Rightarrow> 'arr \<Rightarrow> 'arr" where
  "run_op P (RunXfftn i) a = run_xfftn P i a"
| "run_op P (CopyThrough i) a = a"
| "run_op P (RunTransfer i) a = run_transfer P i a"

definition run_ops :: "'arr pipeline \<Rightarrow> stage_op list \<Rightarrow> 'arr \<Rightarrow> 'arr" where
  "run_ops P ops a = fold (run_op P) ops a"

text \<open>
  The scan of the pipeline, last axis first:
  \<^verbatim>\<open>
  axis = None
  dirichlet_base = None
  number_of_bases_after_dirichlet = 0
  bases = []
  for axes in reversed(T.axes):
      base = T.bases[axes[0]]
      assert len(axes) == 1
      assert axes[0] == base.axis
      if isinstance(base, (legendre.bases.ShenDirichletBasis,
                           chebyshev.bases.ShenDirichletBasis)):
          axis = self.axis = base.axis
          dirichlet_base = base
          bases.append('D')
      else:
          if axis is None:
              number_of_bases_after_dirichlet += 1
          bases.append('F')
  \<close>
  Every entry of \<^verbatim>\<open>T.axes\<close> is a 1-tuple whose basis was planned along that axis, so
  the two assertions hold and \<^verbatim>\<open>base.axis\<close> is the entry. The state of the loop is the
  axis of the Dirichlet basis found last (if any), the count and the list of marks.
\<close>

fun scan_axes ::
  "basis list \<Rightarrow> nat list \<Rightarrow> nat option \<times> nat \<times> string \<Rightarrow> py_error + (nat option \<times> nat \<times> string)" where
  "scan_axes bs [] st = Inr st"
| "scan_axes bs (a # as) (axis, n, marks) =
     (if a < length bs then
        (if is_dirichlet (b_cls (bs ! a))
         then scan_axes bs as (Some a, n, marks @ ''D'')
         else scan_axes bs as (axis, (if axis = None then n + 1 else n), marks @ ''F''))
      else Inl IndexError)"

definition number_of_bases_after_dirichlet :: "basis list \<Rightarrow> nat list \<Rightarrow> nat" where
  "number_of_bases_after_dirichlet bs axes =
     (case scan_axes bs (rev axes) (None, 0, []) of
        Inl e \<Rightarrow> 0 | Inr (axis, n, marks) \<Rightarrow> n)"

text \<open>
  The first pass, which gives \<open>bcs\<close>: nothing for 0 bases after the Dirichlet basis,
  one transform and one redistribution for 1, two of each for 2. No branch of the
  source assigns \<^verbatim>\<open>b_hat\<close> for 3 or more, and the statement that reads it next raises
  UnboundLocalError.
\<close>

definition first_pass_ops :: "nat \<Rightarrow> stage_op list option" where
  "first_pass_ops n =
     (if n = 0 then Some []
      else if n = 1 then Some [RunXfftn 0, RunTransfer 0]
      else if n = 2 then Some [RunXfftn 0, RunTransfer 0, RunXfftn 1, RunTransfer 1]
      else None)"

text \<open>
  The final pass, which gives \<open>bcs_final\<close>:
  \<^verbatim>\<open>
  for i in range(len(T.forward._transfer)):
      if bases[i] == 'F':
          T.forward._xfftn[i]()
      else:
          T.forward._xfftn[i].output_array[...] = T.forward._xfftn[i].input_array
      arrayA = T.forward._xfftn[i].output_array
      arrayB = T.forward._xfftn[i+1].input_array
      T.forward._transfer[i](arrayA, arrayB)
  if bases[-1] == 'F':
      T.forward._xfftn[-1]()
  else:
      T.forward._xfftn[-1].output_array[...] = T.forward._xfftn[-1].input_array
  \<close>
\<close>

definition stage_of :: "string \<Rightarrow> nat \<Rightarrow> stage_op" where
  "stage_of marks i = (if marks ! i = CHR ''F'' then RunXfftn i else CopyThrough i)"

definition final_pass_ops :: "string \<Rightarrow> stage_op list" where
  "final_pass_ops marks =
     concat (map (\<lambda>i. [stage_of marks i, RunTransfer i]) [0..<length marks - 1])
     @ [stage_of marks (length marks - 1)]"

text \<open>
  The argument \<open>T\<close> of \<^verbatim>\<open>set_tensor_bcs\<close> is a single basis (with the axis it was
  planned along) or a tensor product space, of which the bases and the pipeline
  order are read.
\<close>

datatype tbc_target = TBasis basis nat | TSpace "basis list" "nat list"

text \<open>
  \<^verbatim>\<open>set_tensor_bcs(self, T)\<close> returns the updated object and the operations it ran on
  the boundary data. A single Dirichlet basis only sets the slices and the axis. For a
  space with a Dirichlet basis the scan above is followed by
  \<^verbatim>\<open>
  self.set_slices(dirichlet_base)
  if self.has_nonhomogeneous_bcs() is False:
      self.bcs[0] = self.bcs_final[0] = 0
      self.bcs[1] = self.bcs_final[1] = 0
      return
  \<close>
  and then by the construction of \<open>b\<close> and the two passes. \<^verbatim>\<open>set_slices(None)\<close>, when
  the pipeline holds no Dirichlet basis, and \<^verbatim>\<open>T.bases\<close> of a basis that is not a
  Dirichlet basis raise AttributeError.
\<close>

definition set_tensor_bcs ::
  "'arr pipeline \<Rightarrow> bcval boundary_values \<Rightarrow> tbc_target
     \<Rightarrow> py_error + (bcval boundary_values \<times> stage_op list)" where
  "set_tensor_bcs P self T =
     (case T of
        TBasis b ax \<Rightarrow>
          if is_dirichlet (b_cls b) then Inr ((set_slices self)\<lparr>bv_axis := ax\<rparr>, [])
          else Inl AttributeError
      | TSpace bs axes \<Rightarrow>
          if list_ex (\<lambda>b. is_dirichlet (b_cls b)) bs then
            bind_err (scan_axes bs (rev axes) (None, 0, [])) (\<lambda>(axis, n, marks).
              case axis of
                None \<Rightarrow> Inl AttributeError
              | Some a \<Rightarrow>
                  let self1 = set_slices (self\<lparr>bv_axis := a\<rparr>) in
                  bind_err (has_nonhomogeneous_bcs self1) (\<lambda>nh.
                    if \<not> nh then
                      Inr (self1\<lparr>bcs := (Number 0, Number 0),
                                 bcs_final := (Number 0, Number 0)\<rparr>, [])
                    else
                      let b = (case fst (bv_bc self1) of
                                 Expr e \<Rightarrow> b_of_expr P (fst (bv_bc self1)) (snd (bv_bc self1))
                               | Number r \<Rightarrow> b_of_number P (fst (bv_bc self1)) (snd (bv_bc self1))
                               | NdArray xs \<Rightarrow> b_of_array P (fst (bv_bc self1)))
                      in case first_pass_ops n of
                           None \<Rightarrow> Inl UnboundLocalError
                         | Some ops1 \<Rightarrow>
                             let b_hat = run_ops P ops1 b;
                                 self2 = self1\<lparr>bcs := (slab_of P (slm2 self1) b_hat,
                                                       slab_of P (slm1 self1) b_hat)\<rparr>;
                                 ops2 = final_pass_ops marks;
                                 b_fin = run_ops P ops2 b
                             in Inr (self2\<lparr>bcs_final := (slab_of P (slm2 self2) b_fin,
                                                         slab_of P (slm1 self2) b_fin)\<rparr>,
                                     ops1 @ ops2)))
          else Inr (self, []))"

subsection \<open>\<^verbatim>\<open>TensorProductSpace.__init__\<close>\<close>

text \<open>
  What the constructor leaves in the object: the bases, the pipeline order
  (\<^verbatim>\<open>self.axes\<close>, 1-tuples in the source), the dtype, the local-transform stages
  (\<^verbatim>\<open>self.xfftn\<close>, given by the axis each transforms), the redistributions
  (\<^verbatim>\<open>self.transfer\<close>, each given by the axes of the two pencils it connects), and the
  operations the boundary wiring ran.
\<close>

record tensorproductspace =
  t_bases :: "basis list"
  t_axes :: "nat list"
  t_dtype :: char
  t_xfftn :: "nat list"
  t_transfer :: "(nat \<times> nat) list"
  t_bc_ops :: "stage_op list"

text \<open>
  \<^verbatim>\<open>
  for base in self.bases:
      if isinstance(base, (legendre.bases.ShenDirichletBasis,
                           chebyshev.bases.ShenDirichletBasis)):
          base.bc.set_tensor_bcs(self)
  \<close>
\<close>

fun wire_bcs ::
  "'arr pipeline \<Rightarrow> basis list \<Rightarrow> nat list \<Rightarrow> basis list
     \<Rightarrow> py_error + (basis list \<times> stage_op list)" where
  "wire_bcs P Tb Ta [] = Inr ([], [])"
| "wire_bcs P Tb Ta (b # bs) =
     (if is_dirichlet (b_cls b) then
        bind_err (set_tensor_bcs P (b_bc b) (TSpace Tb Ta)) (\<lambda>(bv, ops).
        bind_err (wire_bcs P Tb Ta bs) (\<lambda>(bs', ops').
        Inr (b\<lparr>b_bc := bv\<rparr> # bs', ops @ ops')))
      else
        bind_err (wire_bcs P Tb Ta bs) (\<lambda>(bs', ops'). Inr (b # bs', ops')))"

text \<open>
  The stages are built from the last entry of the pipeline order to the first:
  \<^verbatim>\<open>
  axes = self.axes[-1]
  self.xfftn.append(self.bases[axes[-1]])
  ...
  for i, axes in enumerate(reversed(self.axes[:-1])):
      pencilB = pencilA.pencil(axes[-1])
      transAB = pencilA.transfer(pencilB, dtype)
      xfftn = self.bases[axes[-1]]
      xfftn.plan(pencilB.subshape, axes, dtype, kw)
      self.xfftn.append(xfftn)
      self.transfer.append(transAB)
  \<close>
  The sub-communicators, the pencils and the planning of each basis belong to
  mpi4py-fft and to the bases; they are taken to succeed.
\<close>

definition build_transfer :: "nat list \<Rightarrow> (nat \<times> nat) list" where
  "build_transfer stages = zip (butlast stages) (tl stages)"

text \<open>
  The constructor up to the boundary wiring: the checks of shape, pipeline order,
  dtype and communicator, and the stages.
\<close>

definition tps_validate ::
  "comm_arg \<Rightarrow> basis list \<Rightarrow> axes_arg \<Rightarrow> char option \<Rightarrow> bool \<Rightarrow> py_error + tensorproductspace" where
  "tps_validate comm bs axes dtype slab =
     (let shape = tps_shape bs in
      bind_err (py_assert (shape \<noteq> [])) (\<lambda>_.
      bind_err (py_min shape) (\<lambda>m.
      bind_err (py_assert (0 < m)) (\<lambda>_.
      bind_err (resolve_axes (length shape) axes) (\<lambda>ax.
      bind_err (py_getitem bs (last ax)) (\<lambda>last_base.
      bind_err (infer_dtype (b_cls last_base) dtype) (\<lambda>dt.
      bind_err (check_comm comm slab (length shape) (last ax)) (\<lambda>_.
      Inr \<lparr>t_bases = bs, t_axes = map nat ax, t_dtype = dt,
           t_xfftn = rev (map nat ax),
           t_transfer = build_transfer (rev (map nat ax)),
           t_bc_ops = []\<rparr>))))))))"

definition TensorProductSpace_init ::
  "'arr pipeline \<Rightarrow> comm_arg \<Rightarrow> basis list \<Rightarrow> axes_arg \<Rightarrow> char option \<Rightarrow> bool
     \<Rightarrow> py_error + tensorproductspace" where
  "TensorProductSpace_init P comm bs axes dtype slab =
     bind_err (tps_validate comm bs axes dtype slab) (\<lambda>T.
     bind_err (wire_bcs P (t_bases T) (t_axes T) (t_bases T)) (\<lambda>(bs', ops).
     Inr (T\<lparr>t_bases := bs', t_bc_ops := ops\<rparr>)))"

section \<open>R2CBasis: truncation and padding\<close>

text \<open>
  Arrays are represented along the axis of the basis, as lists of complex
  coefficients. \<^verbatim>\<open>a[:] = b\<close> on an array of \<open>n\<close> elements takes \<open>b\<close> as it is when it
  has \<open>n\<close> elements, broadcasts it when it has one, and raises ValueError otherwise.
\<close>

definition np_assign_all :: "nat \<Rightarrow> 'a list \<Rightarrow> py_error + 'a list" where
  "np_assign_all n src =
     (if length src = n then Inr src
      else if length src = 1 then Inr (replicate n (hd src))
      else Inl ValueError)"

text \<open>
  \<^verbatim>\<open>a[0:n] = b\<close> with \<open>b\<close> of \<open>n\<close> elements: the target slice has \<open>min n (len a)\<close>
  elements; the shapes must agree unless \<open>b\<close> has one element, which broadcasts.
\<close>

definition np_assign_prefix :: "'a list \<Rightarrow> 'a list \<Rightarrow> py_error + 'a list" where
  "np_assign_prefix a b =
     (let m = min (length b) (length a)
      in if length b = m then Inr (b @ drop m a)
         else if length b = 1 then Inr (replicate m (hd b) @ drop m a)
         else Inl ValueError)"

text \<open>
  \<^verbatim>\<open>
  def _truncation_forward(self, padded_array, trunc_array):
      if self.padding_factor > 1.0+1e-8:
          trunc_array.fill(0)
          N = trunc_array.shape[self.axis]
          s = [slice(None)]*trunc_array.ndim
          s[self.axis] = slice(0, N)
          trunc_array[:] = padded_array[s]
          if self.N % 2 == 0:
              s[self.axis] = N-1
              trunc_array[s] = trunc_array[s].real
              trunc_array[s] *= 2
  \<close>
  The function returns the new contents of \<open>trunc_array\<close>. The threshold is the real
  number \<open>1 + 10\<^sup>-\<^sup>8\<close>.
\<close>

definition r2c_truncation_forward ::
  "basis \<Rightarrow> complex list \<Rightarrow> complex list \<Rightarrow> py_error + complex list" where
  "r2c_truncation_forward self padded_array trunc_array =
     (if 1 + 1 / 10 ^ 8 < b_padding_factor self then
        let n = length trunc_array in
        bind_err (np_assign_all n (take n padded_array)) (\<lambda>t1.
        if b_N self mod 2 = 0 then
          bind_err (py_getitem t1 (int n - 1)) (\<lambda>x.
          bind_err (py_setitem t1 (int n - 1) (complex_of_real (Re x))) (\<lambda>t2.
          bind_err (py_getitem t2 (int n - 1)) (\<lambda>y.
          py_setitem t2 (int n - 1) (y * 2))))
        else Inr t1)
      else Inr trunc_array)"

text \<open>The start of the slice \<^verbatim>\<open>a[k:]\<close> in an array of \<open>n\<close> elements.\<close>

definition slice_start :: "nat \<Rightarrow> int \<Rightarrow> nat" where
  "slice_start n k = (if k < 0 then nat (max 0 (int n + k)) else min n (nat k))"

text \<open>
  \<^verbatim>\<open>
  def _padding_backward(self, trunc_array, padded_array):
      if self.padding_factor > 1.0+1e-8:
          padded_array.fill(0)
          N = trunc_array.shape[self.axis]
          s = [slice(0, n) for n in trunc_array.shape]
          padded_array[s] = trunc_array[s]
          if self.N % 2 == 0:  # Symmetric Fourier interpolator
              s[self.axis] = N-1
              padded_array[s] = padded_array[s].real
              padded_array[s] *= 0.5
      elif self.dealias_direct:
          N = self.N
          su = [slice(None)]*padded_array.ndim
          su[self.axis] = slice(int(np.floor(N/3.)), None)
          padded_array[su] = 0
  \<close>
  The function returns the new contents of \<open>padded_array\<close>; the attribute
  \<^verbatim>\<open>dealias_direct\<close> of the basis is an argument.
\<close>

definition r2c_padding_backward ::
  "basis \<Rightarrow> bool \<Rightarrow> complex list \<Rightarrow> complex list \<Rightarrow> py_error + complex list" where
  "r2c_padding_backward self dealias_direct trunc_array padded_array =
     (if 1 + 1 / 10 ^ 8 < b_padding_factor self then
        let n = length trunc_array in
        bind_err (np_assign_prefix (replicate (length padded_array) 0) trunc_array) (\<lambda>p1.
        if b_N self mod 2 = 0 then
          bind_err (py_getitem p1 (int n - 1)) (\<lambda>x.
          bind_err (py_setitem p1 (int n - 1) (complex_of_real (Re x))) (\<lambda>p2.
          bind_err (py_getitem p2 (int n - 1)) (\<lambda>y.
          py_setitem p2 (int n - 1) (y * (1 / 2)))))
        else Inr p1)
      else if dealias_direct then
        let k = slice_start (length padded_array) (b_N self div 3)
        in Inr (take k padded_array @ replicate (length padded_array - k) 0)
      else Inr padded_array)"

section \<open>Legendre bases: \<^verbatim>\<open>plan\<close>\<close>

text \<open>
  The arguments of \<^verbatim>\<open>plan(shape, axis, dtype, options)\<close>. The shape is an integer
  (\<^verbatim>\<open>self.plan(N, 0, np.float, {})\<close> in the constructors), a tuple (the subshape of a
  pencil) or a list; the axis is an integer or a tuple, of which the first entry is
  taken; the dtype is its character code; the options are not read.
\<close>

datatype shape_arg = ShapeInt nat | ShapeTuple "nat list" | ShapeList "nat list"

datatype axis_arg = AxisInt int | AxisTuple "int list"

text \<open>
  An array made by \<^verbatim>\<open>pyfftw.empty_aligned(shape, dtype=dtype)\<close> and \<^verbatim>\<open>fill(0)\<close>: its
  shape is always a tuple, \<open>(n,)\<close> for the integer \<open>n\<close>. Arrays live in a store, at the
  addresses \<open>0 .. w_next - 1\<close>; allocation takes the next address.
\<close>

record buffer =
  buf_shape :: "nat list"
  buf_dtype :: char
  buf_data :: "complex list"

record world =
  w_next :: nat
  w_store :: "nat \<Rightarrow> buffer"

fun shape_tuple :: "shape_arg \<Rightarrow> nat list" where
  "shape_tuple (ShapeInt n) = [n]"
| "shape_tuple (ShapeTuple s) = s"
| "shape_tuple (ShapeList s) = s"

definition empty_aligned_zero :: "shape_arg \<Rightarrow> char \<Rightarrow> buffer" where
  "empty_aligned_zero shape dtype =
     \<lparr>buf_shape = shape_tuple shape, buf_dtype = dtype,
      buf_data = replicate (prod_list (shape_tuple shape)) 0\<rparr>"

definition alloc :: "world \<Rightarrow> buffer \<Rightarrow> world \<times> nat" where
  "alloc w b = (w\<lparr>w_next := w_next w + 1, w_store := (w_store w)(w_next w := b)\<rparr>, w_next w)"

text \<open>
  \<^verbatim>\<open>input_array.shape == shape\<close> compares a tuple with the argument: a tuple equals
  only an equal tuple, never an integer or a list.
\<close>

fun shape_eq :: "nat list \<Rightarrow> shape_arg \<Rightarrow> bool" where
  "shape_eq s (ShapeTuple t) = (s = t)"
| "shape_eq s (ShapeInt n) = False"
| "shape_eq s (ShapeList t) = False"

text \<open>
  The attributes \<^verbatim>\<open>forward\<close>, \<^verbatim>\<open>backward\<close> and \<^verbatim>\<open>scalar_product\<close> of a basis are
  its methods until it is planned; \<^verbatim>\<open>plan\<close> replaces each by
  \<^verbatim>\<open>Transform(func, None, input_array, tmp_array, output_array)\<close>, which wraps the
  previous value and refers to three arrays by their addresses.
\<close>

datatype callable = Method string | Transform callable nat nat nat

record legendre_basis =
  lb_axis :: "int option"
  lb_forward :: callable
  lb_backward :: callable
  lb_scalar_product :: callable

definition legendre_unplanned :: legendre_basis where
  "legendre_unplanned =
     \<lparr>lb_axis = None, lb_forward = Method ''forward'', lb_backward = Method ''backward'',
      lb_scalar_product = Method ''scalar_product''\<rparr>"

text \<open>\<^verbatim>\<open>if isinstance(axis, tuple): axis = axis[0]\<close>\<close>

definition plan_axis :: "axis_arg \<Rightarrow> py_error + int" where
  "plan_axis axis = (case axis of AxisInt a \<Rightarrow> Inr a | AxisTuple as \<Rightarrow> py_getitem as 0)"

text \<open>
  \<^verbatim>\<open>
  if isinstance(self.forward, Transform):
      if self.forward.input_array.shape == shape and self.axis == axis:
          # Already planned
          return
  \<close>
  \<^verbatim>\<open>self.axis\<close> is read only when the shapes are equal; a basis that has no such
  attribute raises AttributeError there.
\<close>

definition already_planned :: "world \<Rightarrow> legendre_basis \<Rightarrow> shape_arg \<Rightarrow> int \<Rightarrow> py_error + bool" where
  "already_planned w self shape ax =
     (case lb_forward self of
        Method m \<Rightarrow> Inr False
      | Transform f i t o' \<Rightarrow>
          if shape_eq (buf_shape (w_store w i)) shape
          then (case lb_axis self of None \<Rightarrow> Inl AttributeError | Some a \<Rightarrow> Inr (a = ax))
          else Inr False)"

text \<open>
  \<^verbatim>\<open>
  def plan(self, shape, axis, dtype, options):
      if isinstance(axis, tuple):
          axis = axis[0]
      if isinstance(self.forward, Transform):
          ...
      U = pyfftw.empty_aligned(shape, dtype=dtype)
      V = pyfftw.empty_aligned(shape, dtype=dtype)
      U.fill(0)
      V.fill(0)
      self.axis = axis
      self.forward = Transform(self.forward, None, U, V, V)
      self.backward = Transform(self.backward, None, V, V, U)
      self.scalar_product = Transform(self.scalar_product, None, U, V, V)
  \<close>
\<close>

definition legendre_plan ::
  "world \<times> legendre_basis \<Rightarrow> shape_arg \<Rightarrow> axis_arg \<Rightarrow> char \<Rightarrow> py_error + (world \<times> legendre_basis)" where
  "legendre_plan ws shape axis dtype =
     (let w = fst ws; self = snd ws in
      bind_err (plan_axis axis) (\<lambda>ax.
      bind_err (already_planned w self shape ax) (\<lambda>planned.
      if planned then Inr (w, self)
      else
        let (w1, U) = alloc w (empty_aligned_zero shape dtype);
            (w2, V) = alloc w1 (empty_aligned_zero shape dtype)
        in Inr (w2, self\<lparr>lb_axis := Some ax,
                         lb_forward := Transform (lb_forward self) U V V,
                         lb_backward := Transform (lb_backward self) V V U,
                         lb_scalar_product := Transform (lb_scalar_product self) U V V\<rparr>))))"

text \<open>
  A ShenDirichletBasis owns a plain Legendre basis \<^verbatim>\<open>self.LT\<close> and shares its arrays:
  \<^verbatim>\<open>
  def plan(self, shape, axis, dtype, options):
      if isinstance(axis, tuple):
          axis = axis[0]
      if isinstance(self.forward, Transform):
          if self.forward.input_array.shape == shape and self.axis == axis:
              # Already planned
              return
      self.LT.plan(shape, axis, dtype, options)
      self.axis = self.LT.axis
      U, V = self.LT.forward.input_array, self.LT.forward.output_array
      self.forward = Transform(self.forward, None, U, V, V)
      self.backward = Transform(self.backward, None, V, V, U)
      self.scalar_product = Transform(self.scalar_product, None, U, V, V)
  \<close>
  After \<^verbatim>\<open>self.LT.plan\<close> the attribute \<^verbatim>\<open>self.LT.forward\<close> is a Transform; reading the
  arrays of a method would raise AttributeError.
\<close>

record dirichlet_basis =
  db_self :: legendre_basis
  db_LT :: legendre_basis

definition dirichlet_plan ::
  "world \<times> dirichlet_basis \<Rightarrow> shape_arg \<Rightarrow> axis_arg \<Rightarrow> char \<Rightarrow> py_error + (world \<times> dirichlet_basis)" where
  "dirichlet_plan wd shape axis dtype =
     (let w = fst wd; d = snd wd in
      bind_err (plan_axis axis) (\<lambda>ax.
      bind_err (already_planned w (db_self d) shape ax) (\<lambda>planned.
      if planned then Inr (w, d)
      else
        bind_err (legendre_plan (w, db_LT d) shape (AxisInt ax) dtype) (\<lambda>(w1, lt).
        case lb_forward lt of
          Method m \<Rightarrow> Inl AttributeError
        | Transform f U T V \<Rightarrow>
            Inr (w1, \<lparr>db_self = (db_self d)\<lparr>lb_axis := lb_axis lt,
                        lb_forward := Transform (lb_forward (db_self d)) U V V,
                        lb_backward := Transform (lb_backward (db_self d)) V V U,
                        lb_scalar_product := Transform (lb_scalar_product (db_self d)) U V V\<rparr>,
                      db_LT = lt\<rparr>)))))"

text \<open>
  A basis is planned for a shape and an axis when its \<^verbatim>\<open>forward\<close> is a Transform
  whose input array has that shape and its \<^verbatim>\<open>axis\<close> is that axis.
\<close>

definition planned_for :: "world \<Rightarrow> legendre_basis \<Rightarrow> nat list \<Rightarrow> int \<Rightarrow> bool" where
  "planned_for w self s a =
     (\<exists>f i t o'. lb_forward self = Transform f i t o' \<and> buf_shape (w_store w i) = s
        \<and> lb_axis self = Some a)"

section \<open>SpectralBase: \<^verbatim>\<open>forward\<close> and \<^verbatim>\<open>apply_inverse_mass\<close>\<close>








text \<open>The array a call returns, or its error.\<close>

definition returned :: "py_error + ('r \<times> 's) \<Rightarrow> py_error + 'r" where
  "returned r = (case r of Inl e \<Rightarrow> Inl e | Inr (v, s) \<Rightarrow> Inr v)"

section \<open>FourierBase: \<^verbatim>\<open>forward\<close>, the scalar product and \<^verbatim>\<open>apply_inverse_mass\<close>\<close>













definition scale :: "real \<Rightarrow> complex list \<Rightarrow> complex list" where
  "scale c xs = map (\<lambda>z. z * complex_of_real c) xs"










subsection \<open>The homogeneous path and example values\<close>

text \<open>
  What the homogeneous path of \<^verbatim>\<open>set_tensor_bcs\<close> leaves in a basis of the space: a
  Dirichlet basis has its slices and axis set and both coefficient pairs zeroed, any
  other basis is untouched.
\<close>

definition zero_wired :: "nat \<Rightarrow> basis \<Rightarrow> basis" where
  "zero_wired a b =
     (if is_dirichlet (b_cls b)
      then b\<lparr>b_bc := (set_slices ((b_bc b)\<lparr>bv_axis := a\<rparr>))
                 \<lparr>bcs := (Number 0, Number 0), bcs_final := (Number 0, Number 0)\<rparr>\<rparr>
      else b)"

text \<open>
  Values for the concrete instances below: a basis with no padding, and a pipeline
  whose arrays carry no data.
\<close>

abbreviation mk_basis :: "basis_class \<Rightarrow> int \<Rightarrow> bcval \<times> bcval \<Rightarrow> basis" where
  "mk_basis c n bc \<equiv> \<lparr>b_cls = c, b_N = n, b_quad = ''GL'', b_domain = (-1, 1),
      b_padding_factor = 1, b_bc = BoundaryValues_init bc\<rparr>"

abbreviation unit_pipeline :: "unit pipeline" where
  "unit_pipeline \<equiv> \<lparr>b_of_expr = (\<lambda>x y. ()), b_of_number = (\<lambda>x y. ()), b_of_array = (\<lambda>x. ()),
      run_xfftn = (\<lambda>i a. ()), run_transfer = (\<lambda>i a. ()), slab_of = (\<lambda>k a. Number 1)\<rparr>"

text \<open>
  A store with no array yet, the basis planned in it for the shape \<open>(8,)\<close>, axis 0 and
  dtype \<open>d\<close>; a one-dimensional Legendre-like basis whose scalar product doubles the
  function values and whose mass matrix has the diagonal 2; and a padded R2CBasis
  (\<open>N = 4\<close>, padding factor 3/2) whose transforms write four coefficients and return
  three.
\<close>

abbreviation plan_w0 :: world where
  "plan_w0 \<equiv> \<lparr>w_next = 0, w_store = (\<lambda>k. empty_aligned_zero (ShapeTuple []) CHR ''d'')\<rparr>"

abbreviation plan_w1 :: world where
  "plan_w1 \<equiv> \<lparr>w_next = 2,
      w_store = (\<lambda>k. empty_aligned_zero (ShapeTuple []) CHR ''d'')
        (0 := empty_aligned_zero (ShapeTuple [8]) CHR ''d'',
         1 := empty_aligned_zero (ShapeTuple [8]) CHR ''d'')\<rparr>"

abbreviation plan_s1 :: legendre_basis where
  "plan_s1 \<equiv> \<lparr>lb_axis = Some 0,
      lb_forward = Transform (Method ''forward'') 0 1 1,
      lb_backward = Transform (Method ''backward'') 1 1 0,
      lb_scalar_product = Transform (Method ''scalar_product'') 0 1 1\<rparr>"





section \<open>Theorems\<close>

subsection \<open>Indexing\<close>

lemma py_index_nonneg: "k < n \<Longrightarrow> py_index n (int k) = Inr k"
  by (simp add: py_index_def)

lemma py_index_neg: "0 < k \<Longrightarrow> k \<le> n \<Longrightarrow> py_index n (- int k) = Inr (n - k)"
  by (simp add: py_index_def Let_def)

lemma bind_err_Inr [simp]: "bind_err (Inr x) f = f x"
  by (simp add: bind_err_def)

lemma bind_err_Inl [simp]: "bind_err (Inl e) f = Inl e"
  by (simp add: bind_err_def)

lemma py_index_last: "2 \<le> n \<Longrightarrow> py_index n (- 1) = Inr (n - 1)"
  using py_index_neg [of 1 n] by simp

lemma py_index_last2: "2 \<le> n \<Longrightarrow> py_index n (- 2) = Inr (n - 2)"
  using py_index_neg [of 2 n] by simp

lemma py_index_0: "2 \<le> n \<Longrightarrow> py_index n 0 = Inr 0"
  using py_index_nonneg [of 0 n] by simp

lemma py_index_1: "2 \<le> n \<Longrightarrow> py_index n 1 = Inr 1"
  using py_index_nonneg [of 1 n] by simp

lemma iadd_two:
  fixes u :: "('v::ring) list"
  assumes "2 \<le> length u"
  shows "bind_err (py_iadd u 0 x) (\<lambda>u1. py_iadd u1 1 y) = Inr (u[0 := u ! 0 + x, 1 := u ! 1 + y])"
  using assms by (simp add: py_iadd_def py_index_0 py_index_1)

lemma setitem_two:
  assumes "2 \<le> length u"
  shows "bind_err (py_setitem u (- 2) x) (\<lambda>u1. py_setitem u1 (- 1) y)
           = Inr (u[length u - 2 := x, length u - 1 := y])"
  using assms by (simp add: py_setitem_def py_index_last py_index_last2)

subsection \<open>Equality and hashing of bases\<close>

text \<open>
  Among the classes of the model, only the two ShenDirichletBasis classes share a
  name; the text \<^verbatim>\<open>repr\<close> gives of a class names its module too, and tells every
  class from every other.
\<close>

lemma class_name_eq_iff:
  "class_name c = class_name c' \<longleftrightarrow> c = c' \<or> (is_dirichlet c \<and> is_dirichlet c')"
  by (cases c; cases c'; simp add: is_dirichlet_def)

lemma class_repr_inj: "class_repr c = class_repr c' \<longleftrightarrow> c = c'"
  by (cases c; cases c'; simp add: class_repr_def)

lemma inj_string_hash: "inj (\<lambda>s::string. int (to_nat s))"
  by (simp add: inj_def)

text \<open>
  C10, as the code has it. Two bases are equal exactly when their classes have the
  same name: when they are of the same class, or of the two ShenDirichletBasis
  classes. The hash is the hash of the text of the class, module and name: it is the
  same for two bases of the same class and, for a hash of strings that tells all
  strings apart, for no two bases of different classes. N, the quadrature rule, the
  domain, the padding factor and the boundary values of either basis change neither
  the equality nor the hash.
\<close>

theorem basis_eq_by_name_hash_by_class:
  "(basis_eq b1 b2 \<longleftrightarrow> class_name (b_cls b1) = class_name (b_cls b2))
   \<and> (basis_eq b1 b2 \<longleftrightarrow>
        b_cls b1 = b_cls b2 \<or> (is_dirichlet (b_cls b1) \<and> is_dirichlet (b_cls b2)))
   \<and> basis_eq (b1\<lparr>b_N := n, b_quad := q, b_domain := d, b_padding_factor := p, b_bc := v\<rparr>)
               (b2\<lparr>b_N := n', b_quad := q', b_domain := d', b_padding_factor := p', b_bc := v'\<rparr>)
        = basis_eq b1 b2
   \<and> basis_hash str_hash (b1\<lparr>b_N := n, b_quad := q, b_domain := d, b_padding_factor := p, b_bc := v\<rparr>)
        = basis_hash str_hash b1
   \<and> (b_cls b1 = b_cls b2 \<longrightarrow>
        basis_eq b1 b2 \<and> basis_hash str_hash b1 = basis_hash str_hash b2)
   \<and> (inj str_hash \<longrightarrow>
        (basis_hash str_hash b1 = basis_hash str_hash b2 \<longleftrightarrow> b_cls b1 = b_cls b2))"
  by (auto simp: basis_eq_def basis_hash_def class_name_eq_iff class_repr_inj inj_eq)

theorem basis_eq_by_name_hash_by_class_witness:
  "basis_eq \<lparr>b_cls = R2CBasis, b_N = 8, b_quad = '''', b_domain = (0, 1), b_padding_factor = 1, b_bc = BoundaryValues_init (Number 0, Number 0)\<rparr>
            \<lparr>b_cls = R2CBasis, b_N = 12, b_quad = ''GL'', b_domain = (-1, 1), b_padding_factor = 3/2, b_bc = BoundaryValues_init (Number 1, Number 2)\<rparr>
   \<and> basis_hash (\<lambda>s. int (to_nat s))
        \<lparr>b_cls = R2CBasis, b_N = 8, b_quad = '''', b_domain = (0, 1), b_padding_factor = 1, b_bc = BoundaryValues_init (Number 0, Number 0)\<rparr>
     = basis_hash (\<lambda>s. int (to_nat s))
        \<lparr>b_cls = R2CBasis, b_N = 12, b_quad = ''GL'', b_domain = (-1, 1), b_padding_factor = 3/2, b_bc = BoundaryValues_init (Number 1, Number 2)\<rparr>
   \<and> \<not> basis_eq \<lparr>b_cls = R2CBasis, b_N = 8, b_quad = '''', b_domain = (0, 1), b_padding_factor = 1, b_bc = BoundaryValues_init (Number 0, Number 0)\<rparr>
              (mk_basis C2CBasis 8 (Number 0, Number 0))
   \<and> basis_hash (\<lambda>s. int (to_nat s))
        \<lparr>b_cls = R2CBasis, b_N = 8, b_quad = '''', b_domain = (0, 1), b_padding_factor = 1, b_bc = BoundaryValues_init (Number 0, Number 0)\<rparr>
     \<noteq> basis_hash (\<lambda>s. int (to_nat s)) (mk_basis C2CBasis 8 (Number 0, Number 0))"
proof -
  let ?a = "\<lparr>b_cls = R2CBasis, b_N = 8, b_quad = '''', b_domain = (0, 1), b_padding_factor = 1, b_bc = BoundaryValues_init (Number 0, Number 0)\<rparr>"
  let ?b = "\<lparr>b_cls = R2CBasis, b_N = 12, b_quad = ''GL'', b_domain = (-1, 1), b_padding_factor = 3/2, b_bc = BoundaryValues_init (Number 1, Number 2)\<rparr>"
  let ?c = "mk_basis C2CBasis 8 (Number 0, Number 0)"
  let ?h = "\<lambda>s::string. int (to_nat s)"
  note ab = basis_eq_by_name_hash_by_class [of ?a ?b _ _ _ _ _ _ _ _ _ _ ?h]
  note ac = basis_eq_by_name_hash_by_class [of ?a ?c _ _ _ _ _ _ _ _ _ _ ?h]
  have 1: "basis_eq ?a ?b" "basis_hash ?h ?a = basis_hash ?h ?b"
    using ab by simp_all
  have 2: "\<not> basis_eq ?a ?c"
    using ac by (simp add: is_dirichlet_def)
  have 3: "basis_hash ?h ?a \<noteq> basis_hash ?h ?c"
    using ac inj_string_hash by simp
  from 1 2 3 show ?thesis by simp
qed

text \<open>
  C10 as stated fails for the hash: the ShenDirichletBasis of the Legendre family and
  the one of the Chebyshev family have the same class name and are equal, but their
  hashes are taken of different texts, here told apart by their lengths.
\<close>

theorem same_name_bases_hash_differently:
  "class_name (b_cls (mk_basis LegendreShenDirichletBasis 8 (Number 0, Number 0)))
     = class_name (b_cls (mk_basis ChebyshevShenDirichletBasis 8 (Number 0, Number 0)))
   \<and> basis_eq (mk_basis LegendreShenDirichletBasis 8 (Number 0, Number 0))
               (mk_basis ChebyshevShenDirichletBasis 8 (Number 0, Number 0))
   \<and> class_repr (b_cls (mk_basis LegendreShenDirichletBasis 8 (Number 0, Number 0)))
       \<noteq> class_repr (b_cls (mk_basis ChebyshevShenDirichletBasis 8 (Number 0, Number 0)))
   \<and> basis_hash (\<lambda>s. int (length s)) (mk_basis LegendreShenDirichletBasis 8 (Number 0, Number 0))
       \<noteq> basis_hash (\<lambda>s. int (length s)) (mk_basis ChebyshevShenDirichletBasis 8 (Number 0, Number 0))"
  by (simp add: basis_eq_def basis_hash_def class_repr_def)

subsection \<open>Applying the boundary values to a coefficient array\<close>

text \<open>
  An array with fewer than two positions along the axis has no index 1 and no index
  -2: both operations raise IndexError.
\<close>

lemma apply_before_short:
  fixes u :: "('v::ring) list"
  shows "length u < 2 \<Longrightarrow> apply_before (set_slices self) u final scales = Inl IndexError"
  by (cases u) (auto simp: apply_before_def set_slices_def py_iadd_def py_index_def Let_def)

lemma apply_after_short:
  "length u < 2 \<Longrightarrow> apply_after (set_slices self) u final = Inl IndexError"
  by (cases u) (auto simp: apply_after_def set_slices_def py_setitem_def py_index_def Let_def)

text \<open>
  C3. For every coefficient array \<open>u\<close> with at least two positions along the axis of
  the basis, \<^verbatim>\<open>apply_before(u, final, scales)\<close> succeeds and adds
  \<open>scales[0]*(bc0 + bc1)\<close> to the slab at \<^verbatim>\<open>sl0\<close> and \<open>scales[1]*(bc0 - bc1)\<close> to the
  slab at \<^verbatim>\<open>sl1\<close>, where \<open>(bc0, bc1)\<close> is \<open>bcs_final\<close> when \<open>final\<close> is true and \<open>bcs\<close>
  otherwise. The two slabs are the ones \<^verbatim>\<open>set_slices\<close> selects: the indices 0 and 1
  along the axis. No other entry of \<open>u\<close> changes and the length is kept.
\<close>

theorem apply_before_adds:
  fixes u :: "('v::ring) list"
  assumes "2 \<le> length u"
  shows "\<exists>u'. apply_before (set_slices self) u final scales = Inr u'
           \<and> length u' = length u
           \<and> u' ! 0 = u ! 0 + fst scales *
                 (fst (if final then bcs_final self else bcs self)
                  + snd (if final then bcs_final self else bcs self))
           \<and> u' ! 1 = u ! 1 + snd scales *
                 (fst (if final then bcs_final self else bcs self)
                  - snd (if final then bcs_final self else bcs self))
           \<and> (\<forall>i. 2 \<le> i \<and> i < length u \<longrightarrow> u' ! i = u ! i)"
proof -
  have len: "0 < length u" "1 < length u" using assms by auto
  show ?thesis
    using len by (simp add: apply_before_def set_slices_def iadd_two [OF assms] nth_list_update)
qed

theorem apply_before_adds_witness:
  "\<exists>u'. apply_before (set_slices \<lparr>bv_bc = (3, 1), bcs = (3, 1), bcs_final = (7, 5),
             sl0 = 0, sl1 = 1, slm1 = -1, slm2 = -2, bv_axis = 0\<rparr>)
           [10, 20, 30, 40 :: int] False (2, 5) = Inr u'
         \<and> u' ! 0 = 18 \<and> u' ! 1 = 30 \<and> u' ! 2 = 30 \<and> u' ! 3 = 40"
  using apply_before_adds [of "[10, 20, 30, 40 :: int]"
      "\<lparr>bv_bc = (3, 1), bcs = (3, 1), bcs_final = (7, 5),
             sl0 = 0, sl1 = 1, slm1 = -1, slm2 = -2, bv_axis = 0\<rparr>" False "(2, 5)"]
  by (auto simp: numeral_2_eq_2 numeral_3_eq_3)

text \<open>
  C4. For every coefficient array \<open>u\<close> with at least two positions along the axis of
  the basis, \<^verbatim>\<open>apply_after(u, final)\<close> succeeds and overwrites the last two slabs
  along the axis (the indices -2 and -1 of \<^verbatim>\<open>slm2\<close> and \<^verbatim>\<open>slm1\<close>) with the two
  entries of \<open>bcs\<close> when \<open>final\<close> is false and of \<open>bcs_final\<close> when it is true; every
  other entry of \<open>u\<close> is unchanged.
\<close>

theorem apply_after_overwrites:
  assumes "2 \<le> length u"
  shows "\<exists>u'. apply_after (set_slices self) u final = Inr u'
           \<and> length u' = length u
           \<and> u' ! (length u - 2) = fst (if final then bcs_final self else bcs self)
           \<and> u' ! (length u - 1) = snd (if final then bcs_final self else bcs self)
           \<and> (\<forall>i. i < length u - 2 \<longrightarrow> u' ! i = u ! i)"
proof -
  have len: "length u - 2 < length u" "length u - 1 < length u" "length u - 2 \<noteq> length u - 1"
    using assms by simp_all
  show ?thesis
    using len by (simp add: apply_after_def set_slices_def setitem_two [OF assms] nth_list_update)
qed

theorem apply_after_overwrites_witness:
  "\<exists>u'. apply_after (set_slices \<lparr>bv_bc = (3, 1), bcs = (3, 1), bcs_final = (7, 5),
             sl0 = 0, sl1 = 1, slm1 = -1, slm2 = -2, bv_axis = 0\<rparr>)
           [10, 20, 30, 40 :: int] True = Inr u'
         \<and> u' ! 0 = 10 \<and> u' ! 1 = 20 \<and> u' ! 2 = 7 \<and> u' ! 3 = 5"
  using apply_after_overwrites [of "[10, 20, 30, 40 :: int]"
      "\<lparr>bv_bc = (3, 1), bcs = (3, 1), bcs_final = (7, 5),
             sl0 = 0, sl1 = 1, slm1 = -1, slm2 = -2, bv_axis = 0\<rparr>" True]
  by (auto simp: numeral_2_eq_2 numeral_3_eq_3)

subsection \<open>Validation of the pipeline order and of the dtype\<close>

lemma sort_remdups_iff: "sort ax = sort (remdups ax) \<longleftrightarrow> distinct (ax :: int list)"
proof
  assume "sort ax = sort (remdups ax)"
  then have "length (sort ax) = length (sort (remdups ax))" by simp
  then have "length (remdups ax) = length ax" by simp
  then show "distinct ax" by simp
next
  assume "distinct ax"
  then show "sort ax = sort (remdups ax)" by (simp add: distinct_remdups_id)
qed

lemma py_min_Inr: "xs \<noteq> [] \<Longrightarrow> py_min xs = Inr (Min (set xs))"
proof (cases xs)
  case (Cons a list)
  then show ?thesis using Min.set_eq_fold [of a list] by (simp add: py_min_def)
qed simp

lemma py_max_Inr: "xs \<noteq> [] \<Longrightarrow> py_max xs = Inr (Max (set xs))"
proof (cases xs)
  case (Cons a list)
  then show ?thesis using Max.set_eq_fold [of a list] by (simp add: py_max_def)
qed simp

lemma py_min_Nil: "py_min [] = Inl ValueError"
  by (simp add: py_min_def)

lemma resolve_axes_iff:
  "resolve_axes n axes = Inr ax \<longleftrightarrow>
     ax = normalize_axes n axes \<and> ax \<noteq> [] \<and> distinct ax \<and> (\<forall>a\<in>set ax. 0 \<le> a \<and> a < int n)"
proof (cases "normalize_axes n axes = []")
  case True
  then show ?thesis by (auto simp: resolve_axes_def py_min_Nil)
next
  case False
  let ?ax = "normalize_axes n axes"
  have fin: "finite (set ?ax)" "set ?ax \<noteq> {}" using False by simp_all
  have len: "distinct ?ax \<Longrightarrow> \<forall>a\<in>set ?ax. 0 \<le> a \<and> a < int n \<Longrightarrow> length ?ax \<le> n"
  proof -
    assume d: "distinct ?ax" and r: "\<forall>a\<in>set ?ax. 0 \<le> a \<and> a < int n"
    have "set ?ax \<subseteq> int ` {0..<n}"
    proof
      fix a assume "a \<in> set ?ax"
      with r have "0 \<le> a" "a < int n" by auto
      then have "a = int (nat a)" "nat a < n" by auto
      then show "a \<in> int ` {0..<n}" by (metis atLeastLessThan_iff image_eqI le0)
    qed
    then have "card (set ?ax) \<le> card (int ` {0..<n})" by (intro card_mono) auto
    also have "\<dots> \<le> n" by (metis card_image_le card_atLeastLessThan diff_zero finite_atLeastLessThan)
    finally show ?thesis using d by (simp add: distinct_card)
  qed
  show ?thesis
    using False fin len
    by (auto simp: resolve_axes_def Let_def py_min_Inr py_max_Inr py_assert_def sort_remdups_iff
             split: if_splits)
qed

lemma bind_err_eq_Inr: "bind_err m f = Inr y \<longleftrightarrow> (\<exists>x. m = Inr x \<and> f x = Inr y)"
  by (cases m) simp_all

lemma py_assert_eq_Inr [simp]: "py_assert c = Inr u \<longleftrightarrow> c"
  by (simp add: py_assert_def)

lemma py_assert_True [simp]: "py_assert True = Inr ()"
  by (simp add: py_assert_def)

lemma py_assert_False [simp]: "py_assert False = Inl AssertionError"
  by (simp add: py_assert_def)

lemma length_tps_shape [simp]: "length (tps_shape bs) = length bs"
  by (simp add: tps_shape_def)

lemma resolve_axes_last:
  assumes "resolve_axes n axes = Inr ax"
  shows "0 \<le> last ax" "last ax < int n" "ax \<noteq> []"
  using assms last_in_set [of ax] by (auto simp: resolve_axes_iff)

lemma py_getitem_nat: "0 \<le> k \<Longrightarrow> k < int (length xs) \<Longrightarrow> py_getitem xs k = Inr (xs ! nat k)"
  by (simp add: py_getitem_def py_index_def)

lemma tps_validate_Inr:
  assumes "tps_validate comm bs axes dtype slab = Inr T"
  shows "\<exists>ax dt. resolve_axes (length bs) axes = Inr ax
            \<and> infer_dtype (b_cls (bs ! nat (last ax))) dtype = Inr dt
            \<and> T = \<lparr>t_bases = bs, t_axes = map nat ax, t_dtype = dt, t_xfftn = rev (map nat ax),
                    t_transfer = build_transfer (rev (map nat ax)), t_bc_ops = []\<rparr>"
proof -
  from assms obtain ax where ax: "resolve_axes (length bs) axes = Inr ax"
    by (auto simp: tps_validate_def Let_def bind_err_eq_Inr)
  note l = resolve_axes_last [OF ax]
  have g: "py_getitem bs (last ax) = Inr (bs ! nat (last ax))"
    using l by (simp add: py_getitem_nat)
  show ?thesis
    using assms ax g by (auto simp: tps_validate_def Let_def bind_err_eq_Inr)
qed

lemma wire_bcs_classes:
  "wire_bcs P Tb Ta bs = Inr (bs', ops) \<Longrightarrow> map b_cls bs' = map b_cls bs"
proof (induction bs arbitrary: bs' ops)
  case Nil
  then show ?case by simp
next
  case (Cons b bs)
  then show ?case
    by (auto simp: bind_err_eq_Inr split: if_splits)
qed

lemma init_Inr:
  assumes "TensorProductSpace_init P comm bs axes dtype slab = Inr T"
  shows "\<exists>T0 bs' ops. tps_validate comm bs axes dtype slab = Inr T0
           \<and> wire_bcs P bs (t_axes T0) bs = Inr (bs', ops)
           \<and> T = T0\<lparr>t_bases := bs', t_bc_ops := ops\<rparr>"
proof -
  from assms obtain T0 where T0: "tps_validate comm bs axes dtype slab = Inr T0"
    by (auto simp: TensorProductSpace_init_def bind_err_eq_Inr)
  from tps_validate_Inr [OF T0] have b: "t_bases T0 = bs" by auto
  show ?thesis
    using assms T0 b by (auto simp: TensorProductSpace_init_def bind_err_eq_Inr)
qed

lemma infer_dtype_None:
  "infer_dtype c None = Inr (if c = C2CBasis then CHR ''D'' else CHR ''d'')"
  by (simp add: infer_dtype_def)

lemma infer_dtype_Some_Inr: "infer_dtype c (Some d) = Inr dt \<Longrightarrow> dt = d"
  by (auto simp: infer_dtype_def bind_err_eq_Inr split: if_splits)

lemma infer_dtype_C2C_real:
  "d \<in> set ''fdg'' \<Longrightarrow> infer_dtype C2CBasis (Some d) = Inl AssertionError"
  by (auto simp: infer_dtype_def)

lemma infer_dtype_R2C_complex:
  "d \<in> set ''FDG'' \<Longrightarrow> infer_dtype R2CBasis (Some d) = Inl AssertionError"
  by (auto simp: infer_dtype_def)

lemma init_dtype_rejected:
  assumes ax: "resolve_axes (length bs) axes = Inr ax"
    and bad: "infer_dtype (b_cls (bs ! nat (last ax))) dtype = Inl AssertionError"
  shows "TensorProductSpace_init P comm bs axes dtype slab = Inl AssertionError"
proof -
  note l = resolve_axes_last [OF ax]
  have g: "py_getitem bs (last ax) = Inr (bs ! nat (last ax))"
    using l by (simp add: py_getitem_nat)
  have ne: "tps_shape bs \<noteq> []" using l by (auto simp: tps_shape_def)
  have v: "tps_validate comm bs axes dtype slab = Inl AssertionError"
    using ax g bad ne
    by (simp add: tps_validate_def Let_def py_min_Inr py_assert_def)
  then show ?thesis by (simp add: TensorProductSpace_init_def)
qed

lemma length_build_transfer: "length (build_transfer xs) = length xs - 1"
  by (simp add: build_transfer_def)

lemma map_nat_int_axes:
  "\<forall>a\<in>set ax. 0 \<le> a \<Longrightarrow> map int (map nat ax) = ax"
  by (induction ax) auto

lemma np_round_of_int [simp]: "np_round (of_int n) = n"
  by (simp add: np_round_def)

lemma np_round_numeral [simp]: "np_round (numeral k) = numeral k"
  using np_round_of_int [of "numeral k"] by simp

lemma tps_shape_unpadded:
  "\<forall>b\<in>set bs. b_padding_factor b = 1 \<Longrightarrow> tps_shape bs = map b_N bs"
  by (induction bs) (simp_all add: tps_shape_def)

lemmas init_eval = TensorProductSpace_init_def tps_validate_def tps_shape_def py_min_def
        resolve_axes_def normalize_axes_def py_max_def py_getitem_def py_index_def
        infer_dtype_def check_comm_def build_transfer_def is_dirichlet_def Let_def
        set_tensor_bcs_def has_nonhomogeneous_bcs_def set_slices_def
        BoundaryValues_init_def update_bcs_def first_pass_ops_def

text \<open>
  C5. The constructor takes the dtype from the basis at the last entry of the
  pipeline order, \<^verbatim>\<open>bases[axes[-1]]\<close>: with no dtype given, a constructed space has the
  complex dtype \<open>D\<close> when that basis is a C2CBasis and the real dtype \<open>d\<close> otherwise.
  With an explicit dtype the construction fails with an AssertionError when the dtype
  is real (\<open>f\<close>, \<open>d\<close>, \<open>g\<close>) and that basis is a C2CBasis, or complex (\<open>F\<close>, \<open>D\<close>,
  \<open>G\<close>) and that basis is an R2CBasis; a space constructed with an explicit dtype has
  that dtype.
\<close>

theorem dtype_inferred_from_last_axis:
  assumes "resolve_axes (length bs) axes = Inr ax"
  shows "(\<forall>T. TensorProductSpace_init P comm bs axes None slab = Inr T \<longrightarrow>
            t_dtype T = (if b_cls (bs ! nat (last ax)) = C2CBasis then CHR ''D'' else CHR ''d''))
       \<and> (b_cls (bs ! nat (last ax)) = C2CBasis \<and> c \<in> set ''fdg'' \<longrightarrow>
            TensorProductSpace_init P comm bs axes (Some c) slab = Inl AssertionError)
       \<and> (b_cls (bs ! nat (last ax)) = R2CBasis \<and> c \<in> set ''FDG'' \<longrightarrow>
            TensorProductSpace_init P comm bs axes (Some c) slab = Inl AssertionError)
       \<and> (\<forall>T. TensorProductSpace_init P comm bs axes (Some c) slab = Inr T \<longrightarrow> t_dtype T = c)"
proof (intro conjI allI impI)
  fix T assume "TensorProductSpace_init P comm bs axes None slab = Inr T"
  from init_Inr [OF this] obtain T0 where T0: "tps_validate comm bs axes None slab = Inr T0"
    and dt: "t_dtype T = t_dtype T0" by auto
  from tps_validate_Inr [OF T0] assms
  show "t_dtype T = (if b_cls (bs ! nat (last ax)) = C2CBasis then CHR ''D'' else CHR ''d'')"
    using dt by (auto simp: infer_dtype_None)
next
  assume "b_cls (bs ! nat (last ax)) = C2CBasis \<and> c \<in> set ''fdg''"
  then show "TensorProductSpace_init P comm bs axes (Some c) slab = Inl AssertionError"
    using init_dtype_rejected [OF assms] infer_dtype_C2C_real by metis
next
  assume "b_cls (bs ! nat (last ax)) = R2CBasis \<and> c \<in> set ''FDG''"
  then show "TensorProductSpace_init P comm bs axes (Some c) slab = Inl AssertionError"
    using init_dtype_rejected [OF assms] infer_dtype_R2C_complex by metis
next
  fix T assume "TensorProductSpace_init P comm bs axes (Some c) slab = Inr T"
  from init_Inr [OF this] obtain T0 where T0: "tps_validate comm bs axes (Some c) slab = Inr T0"
    and dt: "t_dtype T = t_dtype T0" by auto
  from tps_validate_Inr [OF T0] show "t_dtype T = c"
    using dt by (auto dest: infer_dtype_Some_Inr)
qed

theorem dtype_inferred_from_last_axis_witness:
  "resolve_axes 2 AxesNone = Inr [0, 1]
   \<and> TensorProductSpace_init unit_pipeline Intracomm
        [mk_basis C2CBasis 8 (Number 0, Number 0), mk_basis R2CBasis 8 (Number 0, Number 0)]
        AxesNone (Some CHR ''D'') False = Inl AssertionError
   \<and> (\<exists>T. TensorProductSpace_init unit_pipeline Intracomm
        [mk_basis C2CBasis 8 (Number 0, Number 0), mk_basis R2CBasis 8 (Number 0, Number 0)]
        AxesNone None False = Inr T \<and> t_dtype T = CHR ''d'')"
proof -
  let ?bs = "[mk_basis C2CBasis 8 (Number 0, Number 0), mk_basis R2CBasis 8 (Number 0, Number 0)]"
  have r2: "resolve_axes 2 AxesNone = Inr [0, 1]"
    by (simp add: resolve_axes_def normalize_axes_def py_min_def py_max_def Let_def numeral_2_eq_2)
  then have r: "resolve_axes (length ?bs) AxesNone = Inr [0, 1]" by (simp add: numeral_2_eq_2)
  have e: "\<exists>T. TensorProductSpace_init unit_pipeline Intracomm ?bs AxesNone None False = Inr T"
    by (simp add: init_eval)
  note th = dtype_inferred_from_last_axis [OF r, of unit_pipeline Intracomm False "CHR ''D''"]
  from th have "TensorProductSpace_init unit_pipeline Intracomm ?bs AxesNone (Some CHR ''D'') False
      = Inl AssertionError" by simp
  moreover from th e have "\<exists>T. TensorProductSpace_init unit_pipeline Intracomm ?bs AxesNone None False
      = Inr T \<and> t_dtype T = CHR ''d''" by auto
  ultimately show ?thesis using r2 by blast
qed

text \<open>
  C6, as the code has it. A constructed space has as pipeline order the \<^verbatim>\<open>axes\<close>
  argument with its negative entries resolved; that list is not empty, has no
  repeated entry, and every entry is a dimension index below \<open>ndim\<close>. It holds one
  local-transform stage per entry and one redistribution fewer. The list may be
  shorter than \<open>ndim\<close>; when it has \<open>ndim\<close> entries it is a permutation of
  \<open>0..ndim-1\<close> and there are \<open>ndim-1\<close> redistributions. An argument with a repeated or
  an out-of-range entry is rejected.
\<close>

theorem pipeline_order_validated:
  "(\<forall>T. TensorProductSpace_init P comm bs axes dtype slab = Inr T \<longrightarrow>
       map int (t_axes T) = normalize_axes (length bs) axes
     \<and> t_axes T \<noteq> [] \<and> distinct (t_axes T) \<and> (\<forall>a\<in>set (t_axes T). a < length bs)
     \<and> length (t_axes T) \<le> length bs
     \<and> length (t_xfftn T) = length (t_axes T)
     \<and> length (t_transfer T) = length (t_axes T) - 1
     \<and> (length (t_axes T) = length bs \<longrightarrow>
          set (t_axes T) = {0..<length bs} \<and> length (t_transfer T) = length bs - 1))
   \<and> ((\<not> distinct (normalize_axes (length bs) axes)
        \<or> (\<exists>a\<in>set (normalize_axes (length bs) axes). a < 0 \<or> int (length bs) \<le> a))
       \<longrightarrow> (\<exists>e. TensorProductSpace_init P comm bs axes dtype slab = Inl e))"
proof (intro conjI allI impI)
  fix T assume init: "TensorProductSpace_init P comm bs axes dtype slab = Inr T"
  from init_Inr [OF init] obtain T0 where T0: "tps_validate comm bs axes dtype slab = Inr T0"
    and eqs: "t_axes T = t_axes T0" "t_xfftn T = t_xfftn T0" "t_transfer T = t_transfer T0"
    by auto
  from tps_validate_Inr [OF T0] obtain ax where ax: "resolve_axes (length bs) axes = Inr ax"
    and T0eq: "t_axes T0 = map nat ax" "t_xfftn T0 = rev (map nat ax)"
      "t_transfer T0 = build_transfer (rev (map nat ax))" by auto
  from ax have props: "ax = normalize_axes (length bs) axes" "ax \<noteq> []" "distinct ax"
    "\<forall>a\<in>set ax. 0 \<le> a \<and> a < int (length bs)"
    by (auto simp: resolve_axes_iff)
  have inj: "inj_on nat (set ax)"
  proof (rule inj_onI)
    fix x y assume "x \<in> set ax" "y \<in> set ax" "nat x = nat y"
    with props(4) have "0 \<le> x" "0 \<le> y" "nat x = nat y" by auto
    then show "x = y" by simp
  qed
  have d: "distinct (t_axes T)" using props(3) inj by (simp add: eqs T0eq distinct_map)
  have r: "\<forall>a\<in>set (t_axes T). a < length bs" using props(4) by (auto simp: eqs T0eq)
  have "set (t_axes T) \<subseteq> {0..<length bs}" using r by auto
  then have "card (set (t_axes T)) \<le> card {0..<length bs}" by (intro card_mono) auto
  then have le: "length (t_axes T) \<le> length bs" using d by (simp add: distinct_card)
  have "map int (map nat ax) = ax" using props(4) by (intro map_nat_int_axes) auto
  then show "map int (t_axes T) = normalize_axes (length bs) axes"
    using props(1) by (simp only: eqs T0eq)
  show "t_axes T \<noteq> []" using props(2) by (simp add: eqs T0eq)
  show "distinct (t_axes T)" by (rule d)
  show "\<forall>a\<in>set (t_axes T). a < length bs" by (rule r)
  show "length (t_axes T) \<le> length bs" by (rule le)
  show "length (t_xfftn T) = length (t_axes T)" by (simp add: eqs T0eq)
  show lt: "length (t_transfer T) = length (t_axes T) - 1"
    by (simp add: eqs T0eq length_build_transfer)
  {
    assume full: "length (t_axes T) = length bs"
    have "card (set (t_axes T)) = card {0..<length bs}" using d full by (simp add: distinct_card)
    with \<open>set (t_axes T) \<subseteq> {0..<length bs}\<close>
    show "set (t_axes T) = {0..<length bs}" by (intro card_subset_eq) auto
    show "length (t_transfer T) = length bs - 1" using lt full by simp
  }
next
  assume bad: "\<not> distinct (normalize_axes (length bs) axes)
        \<or> (\<exists>a\<in>set (normalize_axes (length bs) axes). a < 0 \<or> int (length bs) \<le> a)"
  show "\<exists>e. TensorProductSpace_init P comm bs axes dtype slab = Inl e"
  proof (cases "TensorProductSpace_init P comm bs axes dtype slab")
    case (Inl e)
    then show ?thesis by blast
  next
    case (Inr T)
    from init_Inr [OF Inr] obtain T0 where T0: "tps_validate comm bs axes dtype slab = Inr T0"
      by auto
    from tps_validate_Inr [OF T0] obtain ax where "resolve_axes (length bs) axes = Inr ax" by auto
    with bad show ?thesis by (auto simp: resolve_axes_iff)
  qed
qed

theorem pipeline_order_validated_witness:
  "(\<exists>T. TensorProductSpace_init unit_pipeline Intracomm
        [mk_basis C2CBasis 8 (Number 0, Number 0), mk_basis R2CBasis 8 (Number 0, Number 0)]
        (AxesSeq [-1, 0]) None False = Inr T
      \<and> map int (t_axes T) = [1, 0] \<and> set (t_axes T) = {0..<2} \<and> length (t_transfer T) = 1)
   \<and> (\<exists>e. TensorProductSpace_init unit_pipeline Intracomm
        [mk_basis C2CBasis 8 (Number 0, Number 0), mk_basis R2CBasis 8 (Number 0, Number 0)]
        (AxesSeq [0, 0]) None False = Inl e)"
proof -
  let ?bs = "[mk_basis C2CBasis 8 (Number 0, Number 0), mk_basis R2CBasis 8 (Number 0, Number 0)]"
  have e: "\<exists>T. TensorProductSpace_init unit_pipeline Intracomm ?bs (AxesSeq [-1, 0]) None False = Inr T"
    by (simp add: init_eval)
  have n: "normalize_axes (length ?bs) (AxesSeq [-1, 0]) = [1, 0]"
    "normalize_axes (length ?bs) (AxesSeq [0, 0]) = [0, 0]"
    by (simp_all add: normalize_axes_def)
  from e obtain T where T: "TensorProductSpace_init unit_pipeline Intracomm ?bs (AxesSeq [-1, 0]) None False = Inr T" ..
  note th1 = pipeline_order_validated [of unit_pipeline Intracomm ?bs "AxesSeq [-1, 0]" None False]
  note th2 = pipeline_order_validated [of unit_pipeline Intracomm ?bs "AxesSeq [0, 0]" None False]
  from th1 T n(1) have a: "map int (t_axes T) = [1, 0]" by metis
  from a have l: "length (t_axes T) = 2"
    by (metis length_map length_Cons list.size(3) numeral_2_eq_2)
  from th1 T l have b: "set (t_axes T) = {0..<2}" and c: "length (t_transfer T) = 1" by auto
  from th2 n(2) have d: "\<exists>e. TensorProductSpace_init unit_pipeline Intracomm ?bs (AxesSeq [0, 0]) None False = Inl e"
    by simp
  from T a b c have f: "\<exists>T. TensorProductSpace_init unit_pipeline Intracomm ?bs (AxesSeq [-1, 0]) None False = Inr T
      \<and> map int (t_axes T) = [1, 0] \<and> set (t_axes T) = {0..<2} \<and> length (t_transfer T) = 1"
    by (intro exI [of _ T] conjI)
  show ?thesis by (rule conjI [OF f d])
qed

text \<open>
  C6 as stated fails: for two bases, the pipeline order \<open>[1]\<close> misses dimension 0 and
  is accepted; the space has one stage and no redistribution.
\<close>

theorem partial_pipeline_order_accepted:
  "TensorProductSpace_init unit_pipeline Intracomm
     [mk_basis C2CBasis 8 (Number 0, Number 0), mk_basis R2CBasis 8 (Number 0, Number 0)]
     (AxesSeq [1]) None False
   = Inr \<lparr>t_bases = [mk_basis C2CBasis 8 (Number 0, Number 0), mk_basis R2CBasis 8 (Number 0, Number 0)],
          t_axes = [1], t_dtype = CHR ''d'', t_xfftn = [1], t_transfer = [], t_bc_ops = []\<rparr>
   \<and> set [1::nat] \<noteq> {0..<2} \<and> length ([] :: (nat \<times> nat) list) \<noteq> 2 - 1"
proof -
  have "(0::nat) \<in> {0..<2}" "(0::nat) \<notin> set [1]" by simp_all
  then have "set [1::nat] \<noteq> {0..<2}" by metis
  then show ?thesis by (simp add: init_eval)
qed

subsection \<open>Boundary values in the pipeline\<close>

lemma has_nonhomogeneous_bcs_slices [simp]:
  "has_nonhomogeneous_bcs (set_slices (self\<lparr>bv_axis := a\<rparr>)) = has_nonhomogeneous_bcs self"
  by (simp add: has_nonhomogeneous_bcs_def set_slices_def cong: if_cong)

lemma has_nonhomogeneous_bcs_numbers:
  "bcs self = (Number x, Number y) \<Longrightarrow> has_nonhomogeneous_bcs self = Inr (x \<noteq> 0 \<or> y \<noteq> 0)"
  by (simp add: has_nonhomogeneous_bcs_def)

lemma has_nonhomogeneous_bcs_exprs:
  "bcs self = (Expr x, Expr y) \<Longrightarrow>
     has_nonhomogeneous_bcs self = Inr (x \<noteq> SympyZero \<or> y \<noteq> SympyZero)"
  by (simp add: has_nonhomogeneous_bcs_def)

lemma scan_axes_total:
  "\<forall>a\<in>set as. a < length bs \<Longrightarrow>
     \<exists>axis n marks. scan_axes bs as st = Inr (axis, n, marks)
       \<and> (axis \<noteq> None \<longleftrightarrow> fst st \<noteq> None \<or> (\<exists>a\<in>set as. is_dirichlet (b_cls (bs ! a))))"
proof (induction as arbitrary: st)
  case Nil
  then show ?case by (cases st) auto
next
  case (Cons a as)
  obtain axis n marks where st: "st = (axis, n, marks)" by (cases st) auto
  have a: "a < length bs" and as: "\<forall>a\<in>set as. a < length bs" using Cons.prems by auto
  show ?case
  proof (cases "is_dirichlet (b_cls (bs ! a))")
    case True
    from Cons.IH [OF as, of "(Some a, n, marks @ ''D'')"] show ?thesis
      using True a st by auto
  next
    case False
    from Cons.IH [OF as, of "(axis, (if axis = None then n + 1 else n), marks @ ''F'')"]
    show ?thesis using False a st by auto
  qed
qed


lemma first_pass_ops_deep: "2 < n \<Longrightarrow> first_pass_ops n = None"
  by (simp add: first_pass_ops_def)

lemma set_tensor_bcs_deep:
  assumes scan: "scan_axes bs (rev axes) (None, 0, []) = Inr (Some a, n, marks)"
    and ex: "list_ex (\<lambda>b. is_dirichlet (b_cls b)) bs"
    and deep: "2 < n"
  shows "set_tensor_bcs P self (TSpace bs axes) =
           (case has_nonhomogeneous_bcs self of
              Inl e \<Rightarrow> Inl e
            | Inr nh \<Rightarrow> if nh then Inl UnboundLocalError
                       else Inr ((set_slices (self\<lparr>bv_axis := a\<rparr>))
                                   \<lparr>bcs := (Number 0, Number 0),
                                    bcs_final := (Number 0, Number 0)\<rparr>, []))"
  using scan ex deep
  by (cases "has_nonhomogeneous_bcs self")
     (simp_all add: set_tensor_bcs_def Let_def first_pass_ops_deep)

lemma wire_bcs_deep:
  assumes scan: "scan_axes Tb (rev Ta) (None, 0, []) = Inr (Some a, n, marks)"
    and ex: "list_ex (\<lambda>b. is_dirichlet (b_cls b)) Tb"
    and deep: "2 < n"
  shows "wire_bcs P Tb Ta bs = Inr (bs', ops) \<longleftrightarrow>
           (\<forall>b\<in>set bs. is_dirichlet (b_cls b) \<longrightarrow> has_nonhomogeneous_bcs (b_bc b) = Inr False)
           \<and> bs' = map (zero_wired a) bs \<and> ops = []"
proof (induction bs arbitrary: bs' ops)
  case Nil
  then show ?case by auto
next
  case (Cons b bs)
  show ?case
  proof (cases "is_dirichlet (b_cls b)")
    case False
    then show ?thesis
      using Cons.IH by (auto simp: bind_err_eq_Inr zero_wired_def)
  next
    case True
    note stb = set_tensor_bcs_deep [OF scan ex deep, of P "b_bc b"]
    show ?thesis
    proof (cases "has_nonhomogeneous_bcs (b_bc b)")
      case (Inl e)
      then show ?thesis using True stb by simp
    next
      case (Inr nh)
      then show ?thesis
        using True stb Cons.IH by (cases nh) (auto simp: bind_err_eq_Inr zero_wired_def)
    qed
  qed
qed

lemma number_of_bases_scan:
  "scan_axes bs (rev axes) (None, 0, []) = Inr (axis, n, marks) \<Longrightarrow>
     number_of_bases_after_dirichlet bs axes = n"
  by (simp add: number_of_bases_after_dirichlet_def)

text \<open>
  The homogeneous path for data of any kind whose test answers False: for a space
  with a Dirichlet basis in its pipeline, \<^verbatim>\<open>set_tensor_bcs\<close> zeroes both coefficient
  pairs and runs nothing on boundary data; for a single Dirichlet basis it only sets
  the slices and the axis.
\<close>

lemma set_tensor_bcs_homogeneous:
  assumes rng: "\<forall>a\<in>set axes. a < length bs"
    and dir: "\<exists>a\<in>set axes. is_dirichlet (b_cls (bs ! a))"
    and hom: "has_nonhomogeneous_bcs self = Inr False"
  shows "\<exists>a. set_tensor_bcs P self (TSpace bs axes) =
           Inr ((set_slices (self\<lparr>bv_axis := a\<rparr>))
                  \<lparr>bcs := (Number 0, Number 0), bcs_final := (Number 0, Number 0)\<rparr>, [])"
proof -
  have rng': "\<forall>a\<in>set (rev axes). a < length bs" using rng by simp
  from scan_axes_total [OF rng', of "(None, 0, [])"] dir
  obtain a n marks where scan: "scan_axes bs (rev axes) (None, 0, []) = Inr (Some a, n, marks)"
    by auto
  from dir rng have ex: "list_ex (\<lambda>b. is_dirichlet (b_cls b)) bs"
    by (auto simp: list_ex_iff)
  have "set_tensor_bcs P self (TSpace bs axes) =
           Inr ((set_slices (self\<lparr>bv_axis := a\<rparr>))
                  \<lparr>bcs := (Number 0, Number 0), bcs_final := (Number 0, Number 0)\<rparr>, [])"
    using scan ex hom by (simp add: set_tensor_bcs_def Let_def)
  then show ?thesis by (rule exI)
qed

lemma set_tensor_bcs_single_basis:
  "is_dirichlet (b_cls b) \<Longrightarrow>
     set_tensor_bcs P self (TBasis b ax) = Inr ((set_slices self)\<lparr>bv_axis := ax\<rparr>, [])"
  by (simp add: set_tensor_bcs_def)

text \<open>
  C7, as the code has it. When the checks of the constructor pass, the pipeline holds
  a Dirichlet basis and more than 2 other bases are counted after it, the
  construction succeeds exactly when every Dirichlet basis of the space has
  homogeneous boundary values; it then runs no operation on boundary data and leaves
  \<open>bcs = bcs_final = (0, 0)\<close> in every Dirichlet basis. With any other boundary values
  the construction fails.
\<close>

theorem deep_pipeline_needs_homogeneous_bcs:
  assumes val: "tps_validate comm bs axes dtype slab = Inr T0"
    and dir: "\<exists>a\<in>set (t_axes T0). is_dirichlet (b_cls (bs ! a))"
    and deep: "2 < number_of_bases_after_dirichlet bs (t_axes T0)"
  shows "((\<exists>T. TensorProductSpace_init P comm bs axes dtype slab = Inr T) \<longleftrightarrow>
           (\<forall>b\<in>set bs. is_dirichlet (b_cls b) \<longrightarrow> has_nonhomogeneous_bcs (b_bc b) = Inr False))
       \<and> (\<forall>T. TensorProductSpace_init P comm bs axes dtype slab = Inr T \<longrightarrow>
            t_bc_ops T = []
            \<and> (\<forall>b\<in>set (t_bases T). is_dirichlet (b_cls b) \<longrightarrow>
                 bcs (b_bc b) = (Number 0, Number 0)
                 \<and> bcs_final (b_bc b) = (Number 0, Number 0)))"
proof -
  from tps_validate_Inr [OF val] obtain ax where ax: "resolve_axes (length bs) axes = Inr ax"
    and T0: "t_axes T0 = map nat ax" "t_bases T0 = bs" by auto
  have rng: "\<forall>a\<in>set (rev (t_axes T0)). a < length bs"
    using ax by (auto simp: resolve_axes_iff T0)
  from scan_axes_total [OF rng, of "(None, 0, [])"] dir
  obtain a n marks where scan: "scan_axes bs (rev (t_axes T0)) (None, 0, []) = Inr (Some a, n, marks)"
    by auto
  have n: "2 < n" using deep number_of_bases_scan [OF scan] by simp
  from dir rng have ex: "list_ex (\<lambda>b. is_dirichlet (b_cls b)) bs"
    by (auto simp: list_ex_iff)
  note w = wire_bcs_deep [OF scan ex n, of P bs]
  have init: "\<And>T. TensorProductSpace_init P comm bs axes dtype slab = Inr T \<longleftrightarrow>
      (\<exists>bs' ops. wire_bcs P bs (t_axes T0) bs = Inr (bs', ops)
         \<and> T = T0\<lparr>t_bases := bs', t_bc_ops := ops\<rparr>)"
    using val T0 by (auto simp: TensorProductSpace_init_def bind_err_eq_Inr)
  show ?thesis
    unfolding init w by (auto simp: zero_wired_def)
qed

theorem deep_pipeline_needs_homogeneous_bcs_witness:
  "tps_validate Intracomm
     [mk_basis ChebyshevShenDirichletBasis 8 (Number 1, Number 0), mk_basis C2CBasis 8 (Number 0, Number 0),
      mk_basis C2CBasis 8 (Number 0, Number 0), mk_basis R2CBasis 8 (Number 0, Number 0)]
     AxesNone None False
   = Inr \<lparr>t_bases = [mk_basis ChebyshevShenDirichletBasis 8 (Number 1, Number 0), mk_basis C2CBasis 8 (Number 0, Number 0),
      mk_basis C2CBasis 8 (Number 0, Number 0), mk_basis R2CBasis 8 (Number 0, Number 0)],
          t_axes = [0, 1, 2, 3], t_dtype = CHR ''d'', t_xfftn = [3, 2, 1, 0],
          t_transfer = [(3, 2), (2, 1), (1, 0)], t_bc_ops = []\<rparr>
   \<and> \<not> (\<exists>T. TensorProductSpace_init unit_pipeline Intracomm
     [mk_basis ChebyshevShenDirichletBasis 8 (Number 1, Number 0), mk_basis C2CBasis 8 (Number 0, Number 0),
      mk_basis C2CBasis 8 (Number 0, Number 0), mk_basis R2CBasis 8 (Number 0, Number 0)]
     AxesNone None False = Inr T)
   \<and> TensorProductSpace_init unit_pipeline Intracomm
     [mk_basis ChebyshevShenDirichletBasis 8 (Number 1, Number 0), mk_basis C2CBasis 8 (Number 0, Number 0),
      mk_basis C2CBasis 8 (Number 0, Number 0), mk_basis R2CBasis 8 (Number 0, Number 0)]
     AxesNone None False = Inl UnboundLocalError"
proof -
  let ?bs = "[mk_basis ChebyshevShenDirichletBasis 8 (Number 1, Number 0), mk_basis C2CBasis 8 (Number 0, Number 0),
      mk_basis C2CBasis 8 (Number 0, Number 0), mk_basis R2CBasis 8 (Number 0, Number 0)]"
  let ?T0 = "\<lparr>t_bases = ?bs, t_axes = [0, 1, 2, 3], t_dtype = CHR ''d'', t_xfftn = [3, 2, 1, 0],
          t_transfer = [(3, 2), (2, 1), (1, 0)], t_bc_ops = []\<rparr>"
  have v: "tps_validate Intracomm ?bs AxesNone None False = Inr ?T0"
    by (simp add: init_eval)
  have d: "\<exists>a\<in>set (t_axes ?T0). is_dirichlet (b_cls (?bs ! a))"
    by (simp add: is_dirichlet_def)
  have n: "2 < number_of_bases_after_dirichlet ?bs (t_axes ?T0)"
    by (simp add: number_of_bases_after_dirichlet_def is_dirichlet_def)
  have nh: "\<not> (\<forall>b\<in>set ?bs. is_dirichlet (b_cls b) \<longrightarrow> has_nonhomogeneous_bcs (b_bc b) = Inr False)"
    by (simp add: init_eval)
  have u: "TensorProductSpace_init unit_pipeline Intracomm ?bs AxesNone None False = Inl UnboundLocalError"
    by (simp add: init_eval)
  from deep_pipeline_needs_homogeneous_bcs [OF v d n, of unit_pipeline] nh
  have "\<not> (\<exists>T. TensorProductSpace_init unit_pipeline Intracomm ?bs AxesNone None False = Inr T)"
    by blast
  with v u show ?thesis by blast
qed

text \<open>
  C7 as stated fails: a space of a Dirichlet basis with boundary values \<open>(0, 0)\<close>
  followed by three Fourier bases counts 3 bases after the Dirichlet basis and is
  constructed without an error.
\<close>

theorem deep_pipeline_homogeneous_accepted:
  "number_of_bases_after_dirichlet
     [mk_basis LegendreShenDirichletBasis 8 (Number 0, Number 0), mk_basis C2CBasis 8 (Number 0, Number 0),
      mk_basis C2CBasis 8 (Number 0, Number 0), mk_basis R2CBasis 8 (Number 0, Number 0)] [0, 1, 2, 3] = 3
   \<and> TensorProductSpace_init unit_pipeline Intracomm
     [mk_basis LegendreShenDirichletBasis 8 (Number 0, Number 0), mk_basis C2CBasis 8 (Number 0, Number 0),
      mk_basis C2CBasis 8 (Number 0, Number 0), mk_basis R2CBasis 8 (Number 0, Number 0)]
     AxesNone None False
   = Inr \<lparr>t_bases = [mk_basis LegendreShenDirichletBasis 8 (Number 0, Number 0), mk_basis C2CBasis 8 (Number 0, Number 0),
      mk_basis C2CBasis 8 (Number 0, Number 0), mk_basis R2CBasis 8 (Number 0, Number 0)],
          t_axes = [0, 1, 2, 3], t_dtype = CHR ''d'', t_xfftn = [3, 2, 1, 0],
          t_transfer = [(3, 2), (2, 1), (1, 0)], t_bc_ops = []\<rparr>"
  by (simp add: init_eval number_of_bases_after_dirichlet_def)

text \<open>
  C2 at array-valued boundary data: \<^verbatim>\<open>has_nonhomogeneous_bcs\<close> raises ValueError for
  arrays of two elements, whether they are zero or not, and so does
  \<^verbatim>\<open>set_tensor_bcs\<close> for a space with a Dirichlet basis, instead of taking the
  homogeneous path. For numbers and for sympy expressions the answer is the one of
  \<open>has_nonhomogeneous_bcs_numbers\<close> and \<open>has_nonhomogeneous_bcs_exprs\<close>, and the
  homogeneous path is the one of \<open>set_tensor_bcs_homogeneous\<close>.
\<close>

theorem has_nonhomogeneous_bcs_ndarray_raises:
  "has_nonhomogeneous_bcs (BoundaryValues_init (NdArray [1, 2], NdArray [0, 0])) = Inl ValueError
   \<and> has_nonhomogeneous_bcs (BoundaryValues_init (NdArray [0, 0], NdArray [0, 0])) = Inl ValueError
   \<and> set_tensor_bcs unit_pipeline (BoundaryValues_init (NdArray [0, 0], NdArray [0, 0]))
        (TSpace [mk_basis LegendreShenDirichletBasis 8 (NdArray [0, 0], NdArray [0, 0]),
                 mk_basis R2CBasis 8 (Number 0, Number 0)] [0, 1]) = Inl ValueError"
  by (simp add: init_eval)

subsection \<open>Truncation and padding of the real-to-complex basis\<close>

lemma py_getitem_last_pos:
  "0 < n \<Longrightarrow> n \<le> length xs \<Longrightarrow> py_getitem xs (int n - 1) = Inr (xs ! (n - 1))"
  by (simp add: py_getitem_def py_index_def Let_def nat_diff_distrib')

lemma py_setitem_last_pos:
  "0 < n \<Longrightarrow> n \<le> length xs \<Longrightarrow> py_setitem xs (int n - 1) v = Inr (xs[n - 1 := v])"
  by (simp add: py_setitem_def py_index_def Let_def nat_diff_distrib')

lemma real_scale_last:
  assumes "0 < n" "n \<le> length xs"
  shows "bind_err (py_getitem xs (int n - 1)) (\<lambda>x.
         bind_err (py_setitem xs (int n - 1) (complex_of_real (Re x))) (\<lambda>t2.
         bind_err (py_getitem t2 (int n - 1)) (\<lambda>y.
         py_setitem t2 (int n - 1) (y * c))))
         = Inr (xs[n - 1 := complex_of_real (Re (xs ! (n - 1))) * c])"
proof -
  let ?t2 = "xs[n - 1 := complex_of_real (Re (xs ! (n - 1)))]"
  have l2: "n \<le> length ?t2" using assms by simp
  have i: "n - 1 < length xs" using assms by linarith
  have g1: "py_getitem xs (int n - 1) = Inr (xs ! (n - 1))"
    by (rule py_getitem_last_pos [OF assms])
  have s1: "py_setitem xs (int n - 1) (complex_of_real (Re (xs ! (n - 1)))) = Inr ?t2"
    by (rule py_setitem_last_pos [OF assms])
  have g2: "py_getitem ?t2 (int n - 1) = Inr (complex_of_real (Re (xs ! (n - 1))))"
    using py_getitem_last_pos [OF assms(1) l2] i by simp
  have s2: "py_setitem ?t2 (int n - 1) (complex_of_real (Re (xs ! (n - 1))) * c)
              = Inr (xs[n - 1 := complex_of_real (Re (xs ! (n - 1))) * c])"
    using py_setitem_last_pos [OF assms(1) l2] by simp
  show ?thesis by (simp only: g1 bind_err_Inr s1 g2 s2)
qed

lemma r2c_truncation_forward_even:
  assumes "even (b_N self)" "1 + 1 / 10 ^ 8 < b_padding_factor self"
    "0 < length trunc" "length trunc \<le> length padded"
  shows "r2c_truncation_forward self padded trunc =
           Inr ((take (length trunc) padded)
                  [length trunc - 1 := complex_of_real (Re (padded ! (length trunc - 1))) * 2])"
proof -
  let ?n = "length trunc"
  let ?t1 = "take ?n padded"
  have l: "length ?t1 = ?n" using assms by simp
  have a: "np_assign_all ?n ?t1 = Inr ?t1" using l by (simp add: np_assign_all_def)
  have n: "?n \<le> length ?t1" using l by simp
  have m: "b_N self mod 2 = 0" using assms(1) by presburger
  have i: "?n - 1 < ?n" using assms(3) by linarith
  have nth: "?t1 ! (?n - 1) = padded ! (?n - 1)" using i by simp
  have "r2c_truncation_forward self padded trunc =
      bind_err (py_getitem ?t1 (int ?n - 1)) (\<lambda>x.
         bind_err (py_setitem ?t1 (int ?n - 1) (complex_of_real (Re x))) (\<lambda>t2.
         bind_err (py_getitem t2 (int ?n - 1)) (\<lambda>y.
         py_setitem t2 (int ?n - 1) (y * 2))))"
    using assms(2) m by (simp add: r2c_truncation_forward_def Let_def a)
  also have "\<dots> = Inr (?t1[?n - 1 := complex_of_real (Re (?t1 ! (?n - 1))) * 2])"
    by (rule real_scale_last [OF assms(3) n])
  finally show ?thesis by (simp only: nth)
qed

lemma r2c_padding_backward_even:
  assumes "even (b_N self)" "1 + 1 / 10 ^ 8 < b_padding_factor self"
    "0 < length trunc" "length trunc \<le> length padded"
  shows "r2c_padding_backward self dd trunc padded =
           Inr ((trunc @ replicate (length padded - length trunc) 0)
                  [length trunc - 1 := complex_of_real (Re (trunc ! (length trunc - 1))) * (1 / 2)])"
proof -
  let ?n = "length trunc"
  let ?p1 = "trunc @ replicate (length padded - ?n) 0"
  have mn: "min ?n (length padded) = ?n" using assms by simp
  have a: "np_assign_prefix (replicate (length padded) 0) trunc = Inr ?p1"
    using mn by (simp add: np_assign_prefix_def Let_def)
  have n: "?n \<le> length ?p1" by simp
  have m: "b_N self mod 2 = 0" using assms(1) by presburger
  have i: "?n - 1 < ?n" using assms(3) by linarith
  have nth: "?p1 ! (?n - 1) = trunc ! (?n - 1)" using i by (simp add: nth_append)
  have "r2c_padding_backward self dd trunc padded =
      bind_err (py_getitem ?p1 (int ?n - 1)) (\<lambda>x.
         bind_err (py_setitem ?p1 (int ?n - 1) (complex_of_real (Re x))) (\<lambda>t2.
         bind_err (py_getitem t2 (int ?n - 1)) (\<lambda>y.
         py_setitem t2 (int ?n - 1) (y * (1 / 2)))))"
    using assms(2) m by (simp add: r2c_padding_backward_def Let_def a)
  also have "\<dots> = Inr (?p1[?n - 1 := complex_of_real (Re (?p1 ! (?n - 1))) * (1 / 2)])"
    by (rule real_scale_last [OF assms(3) n])
  finally show ?thesis by (simp only: nth)
qed

lemma r2c_below_threshold:
  "b_padding_factor self \<le> 1 + 1 / 10 ^ 8 \<Longrightarrow>
     r2c_truncation_forward self padded trunc = Inr trunc
     \<and> r2c_padding_backward self False trunc padded = Inr padded"
  by (simp add: r2c_truncation_forward_def r2c_padding_backward_def)

text \<open>
  A basis is padded when \<^verbatim>\<open>padding_factor > 1.0+1e-8\<close>: the code compares floats with
  the tolerance \<open>10\<^sup>-\<^sup>8\<close> throughout (\<^verbatim>\<open>assert abs(self.padding_factor-1) < 1e-8\<close> in the
  Vandermonde evaluations). The constructor plans the padded array with
  \<^verbatim>\<open>int(np.floor(padding_factor*N))\<close> points: a basis of fewer than \<open>10\<^sup>8\<close> points that
  is padded by at least one point is above the threshold.
\<close>

lemma r2c_padded_above_threshold:
  assumes "0 < b_N self" "b_N self < 10 ^ 8"
    and "b_N self < \<lfloor>b_padding_factor self * real_of_int (b_N self)\<rfloor>"
  shows "1 + 1 / 10 ^ 8 < b_padding_factor self"
proof -
  let ?N = "real_of_int (b_N self)" and ?p = "b_padding_factor self"
  have N: "0 < ?N" "?N < 10 ^ 8" using assms(1,2) by simp_all
  from assms(3) have "b_N self + 1 \<le> \<lfloor>?p * ?N\<rfloor>" by simp
  then have "real_of_int (b_N self + 1) \<le> ?p * ?N" by (simp only: le_floor_iff)
  then have "?N + 1 \<le> ?p * ?N" by simp
  then have "1 + 1 / ?N \<le> ?p" using N(1) by (simp add: field_simps)
  moreover have "1 / 10 ^ 8 < 1 / ?N" using N by (simp add: field_simps)
  ultimately show ?thesis by simp
qed

text \<open>
  C8. For an R2CBasis with even N and a padding factor above 1, which the code reads
  as above \<open>1 + 10\<^sup>-\<^sup>8\<close>, and arrays where the padded one is at least as long as the
  truncated one: the forward truncation copies the retained modes from the padded
  array and sets the highest retained one (the last of the truncated array) to twice
  its real part, with imaginary part 0; the backward padding zeroes the padded array,
  copies the modes of the truncated array and sets that same mode to half its real
  part; the lower retained modes are copied unchanged.
\<close>

theorem r2c_nyquist_handling:
  assumes "even (b_N self)" "1 + 1 / 10 ^ 8 < b_padding_factor self"
    "0 < length trunc" "length trunc \<le> length padded"
  shows "(\<exists>t'. r2c_truncation_forward self padded trunc = Inr t'
            \<and> length t' = length trunc
            \<and> t' ! (length trunc - 1) = complex_of_real (2 * Re (padded ! (length trunc - 1)))
            \<and> (\<forall>i. i < length trunc - 1 \<longrightarrow> t' ! i = padded ! i))
       \<and> (\<exists>p'. r2c_padding_backward self dd trunc padded = Inr p'
            \<and> length p' = length padded
            \<and> p' ! (length trunc - 1) = complex_of_real (Re (trunc ! (length trunc - 1)) / 2)
            \<and> (\<forall>i. i < length trunc - 1 \<longrightarrow> p' ! i = trunc ! i)
            \<and> (\<forall>i. length trunc \<le> i \<and> i < length padded \<longrightarrow> p' ! i = 0))"
proof (rule conjI)
  let ?n = "length trunc"
  have i: "?n - 1 < ?n" using assms(3) by linarith
  let ?t = "(take ?n padded)[?n - 1 := complex_of_real (Re (padded ! (?n - 1))) * 2]"
  have lt: "length ?t = ?n" using assms(4) by simp
  have t1: "?t ! (?n - 1) = complex_of_real (2 * Re (padded ! (?n - 1)))"
    using i assms(4) by (simp add: mult.commute)
  have t2: "\<forall>i. i < ?n - 1 \<longrightarrow> ?t ! i = padded ! i" by simp
  show "\<exists>t'. r2c_truncation_forward self padded trunc = Inr t'
            \<and> length t' = length trunc
            \<and> t' ! (length trunc - 1) = complex_of_real (2 * Re (padded ! (length trunc - 1)))
            \<and> (\<forall>i. i < length trunc - 1 \<longrightarrow> t' ! i = padded ! i)"
    using r2c_truncation_forward_even [OF assms] lt t1 t2 by blast
  let ?p = "(trunc @ replicate (length padded - ?n) 0)
              [?n - 1 := complex_of_real (Re (trunc ! (?n - 1))) * (1 / 2)]"
  have lp: "length ?p = length padded" using assms(4) by simp
  have p1: "?p ! (?n - 1) = complex_of_real (Re (trunc ! (?n - 1)) / 2)"
    using i by simp
  have p2: "\<forall>i. i < ?n - 1 \<longrightarrow> ?p ! i = trunc ! i" by (auto simp: nth_append)
  have p3: "\<forall>i. ?n \<le> i \<and> i < length padded \<longrightarrow> ?p ! i = 0"
    using i by (auto simp: nth_append)
  show "\<exists>p'. r2c_padding_backward self dd trunc padded = Inr p'
            \<and> length p' = length padded
            \<and> p' ! (length trunc - 1) = complex_of_real (Re (trunc ! (length trunc - 1)) / 2)
            \<and> (\<forall>i. i < length trunc - 1 \<longrightarrow> p' ! i = trunc ! i)
            \<and> (\<forall>i. length trunc \<le> i \<and> i < length padded \<longrightarrow> p' ! i = 0)"
    using r2c_padding_backward_even [OF assms, of dd] lp p1 p2 p3 by blast
qed

theorem r2c_nyquist_handling_witness:
  "\<exists>t' p'. r2c_truncation_forward (mk_basis R2CBasis 4 (Number 0, Number 0)\<lparr>b_padding_factor := 3/2\<rparr>)
        [Complex 1 1, Complex 2 2, Complex 3 3, Complex 4 4] [0, 0, 0] = Inr t'
      \<and> t' ! 0 = Complex 1 1 \<and> t' ! 1 = Complex 2 2 \<and> t' ! 2 = 6
      \<and> r2c_padding_backward (mk_basis R2CBasis 4 (Number 0, Number 0)\<lparr>b_padding_factor := 3/2\<rparr>) False
        [Complex 1 1, Complex 2 2, Complex 4 3] [9, 9, 9, 9] = Inr p'
      \<and> p' ! 0 = Complex 1 1 \<and> p' ! 1 = Complex 2 2 \<and> p' ! 2 = 2 \<and> p' ! 3 = 0"
proof -
  let ?b = "mk_basis R2CBasis 4 (Number 0, Number 0)\<lparr>b_padding_factor := 3/2\<rparr>"
  have h: "even (b_N ?b)" "1 + 1 / 10 ^ 8 < b_padding_factor ?b" by simp_all
  from r2c_nyquist_handling [of ?b "[0, 0, 0]" "[Complex 1 1, Complex 2 2, Complex 3 3, Complex 4 4]" False]
  obtain t' where t: "r2c_truncation_forward ?b [Complex 1 1, Complex 2 2, Complex 3 3, Complex 4 4] [0, 0, 0] = Inr t'"
    "t' ! 2 = 6" "\<forall>i. i < 2 \<longrightarrow> t' ! i = [Complex 1 1, Complex 2 2, Complex 3 3, Complex 4 4] ! i"
    using h by (auto simp: numeral_2_eq_2)
  from r2c_nyquist_handling [of ?b "[Complex 1 1, Complex 2 2, Complex 4 3]" "[9, 9, 9, 9]" False]
  obtain p' where p: "r2c_padding_backward ?b False [Complex 1 1, Complex 2 2, Complex 4 3] [9, 9, 9, 9] = Inr p'"
    "p' ! 2 = 2" "\<forall>i. i < 2 \<longrightarrow> p' ! i = [Complex 1 1, Complex 2 2, Complex 4 3] ! i"
    "\<forall>i. 3 \<le> i \<and> i < 4 \<longrightarrow> p' ! i = 0"
    using h by (auto simp: numeral_2_eq_2)
  from t(3) have t01: "t' ! 0 = Complex 1 1" "t' ! 1 = Complex 2 2" by simp_all
  from p(3) have p01: "p' ! 0 = Complex 1 1" "p' ! 1 = Complex 2 2" by simp_all
  from p(4) have p3: "p' ! 3 = 0" by simp
  show ?thesis using t(1,2) t01 p(1,2) p01 p3 by blast
qed

subsection \<open>Planning a Legendre basis\<close>

lemma plan_axis_int [simp]: "plan_axis (AxisInt a) = Inr a"
  by (simp add: plan_axis_def)

lemma plan_axis_tuple [simp]: "plan_axis (AxisTuple (a # as)) = Inr a"
  by (simp add: plan_axis_def py_getitem_def py_index_def)

lemma already_planned_iff:
  assumes "planned_for w self s a"
  shows "already_planned w self shape ax = Inr (shape = ShapeTuple s \<and> ax = a)"
proof -
  from assms obtain f i t o' where f: "lb_forward self = Transform f i t o'"
    "buf_shape (w_store w i) = s" "lb_axis self = Some a"
    by (auto simp: planned_for_def)
  show ?thesis
    using f by (cases shape) (auto simp: already_planned_def)
qed

lemma legendre_replan:
  assumes "already_planned w self shape ax = Inr False" "plan_axis axis = Inr ax"
  shows "legendre_plan (w, self) shape axis dtype =
    Inr (w\<lparr>w_next := w_next w + 2,
            w_store := (w_store w)(w_next w := empty_aligned_zero shape dtype,
                                   w_next w + 1 := empty_aligned_zero shape dtype)\<rparr>,
         self\<lparr>lb_axis := Some ax,
              lb_forward := Transform (lb_forward self) (w_next w) (w_next w + 1) (w_next w + 1),
              lb_backward := Transform (lb_backward self) (w_next w + 1) (w_next w + 1) (w_next w),
              lb_scalar_product := Transform (lb_scalar_product self) (w_next w) (w_next w + 1) (w_next w + 1)\<rparr>)"
  using assms by (simp add: legendre_plan_def alloc_def Let_def)

lemma legendre_plan_planned:
  assumes "already_planned w self shape ax = Inr False" "plan_axis axis = Inr ax"
    "legendre_plan (w, self) shape axis dtype = Inr (w', self')"
  shows "planned_for w' self' (shape_tuple shape) ax"
  using assms(3) unfolding legendre_replan [OF assms(1,2)]
  by (auto simp: planned_for_def empty_aligned_zero_def)

text \<open>
  A shape given as an integer never equals the tuple shape of the input array, so a
  basis planned with \<^verbatim>\<open>plan(N, ...)\<close> is planned anew by the same call.
\<close>

lemma replan_int_shape:
  "planned_for w self s a \<Longrightarrow> plan_axis axis = Inr ax \<Longrightarrow>
     \<exists>w' self'. legendre_plan (w, self) (ShapeInt n) axis dtype = Inr (w', self')
       \<and> w_next w' = w_next w + 2"
  using already_planned_iff [of w self s a "ShapeInt n" ax]
  by (simp add: legendre_replan)

text \<open>
  C9, as the code has it. For a basis planned for the shape \<open>s\<close> and the axis \<open>a\<close>:
  \<^verbatim>\<open>plan\<close> with the tuple \<open>s\<close> and the axis \<open>a\<close> returns the store and the basis as
  they are, whatever the dtype is; \<^verbatim>\<open>plan\<close> with another shape or another axis
  allocates two new zero-filled arrays of the new shape and dtype, leaves the arrays
  already in the store as they are, and replaces the three transforms by transforms
  over the new arrays. A ShenDirichletBasis whose inner basis \<^verbatim>\<open>LT\<close> is planned for
  the same shape and axis behaves the same way, and shares the new arrays with \<^verbatim>\<open>LT\<close>.
\<close>

theorem plan_idempotent_on_shape_and_axis:
  assumes p: "planned_for w self s a" and ax: "plan_axis axis = Inr ax"
  shows "(shape = ShapeTuple s \<and> ax = a \<longrightarrow>
            legendre_plan (w, self) shape axis dtype = Inr (w, self))
       \<and> (\<not> (shape = ShapeTuple s \<and> ax = a) \<longrightarrow>
            (\<exists>w' self'. legendre_plan (w, self) shape axis dtype = Inr (w', self')
               \<and> w_next w' = w_next w + 2
               \<and> (\<forall>k. k < w_next w \<longrightarrow> w_store w' k = w_store w k)
               \<and> w_store w' (w_next w) = empty_aligned_zero shape dtype
               \<and> w_store w' (w_next w + 1) = empty_aligned_zero shape dtype
               \<and> lb_axis self' = Some ax
               \<and> lb_forward self' = Transform (lb_forward self) (w_next w) (w_next w + 1) (w_next w + 1)
               \<and> lb_backward self' = Transform (lb_backward self) (w_next w + 1) (w_next w + 1) (w_next w)
               \<and> lb_scalar_product self' =
                    Transform (lb_scalar_product self) (w_next w) (w_next w + 1) (w_next w + 1)))
       \<and> (planned_for w (db_LT d) s a \<and> db_self d = self \<longrightarrow>
            (shape = ShapeTuple s \<and> ax = a \<longrightarrow>
               dirichlet_plan (w, d) shape axis dtype = Inr (w, d))
          \<and> (\<not> (shape = ShapeTuple s \<and> ax = a) \<longrightarrow>
               (\<exists>w' d'. dirichlet_plan (w, d) shape axis dtype = Inr (w', d')
                  \<and> w_next w' = w_next w + 2
                  \<and> (\<forall>k. k < w_next w \<longrightarrow> w_store w' k = w_store w k)
                  \<and> w_store w' (w_next w) = empty_aligned_zero shape dtype
                  \<and> w_store w' (w_next w + 1) = empty_aligned_zero shape dtype
                  \<and> lb_forward (db_self d') =
                       Transform (lb_forward self) (w_next w) (w_next w + 1) (w_next w + 1)
                  \<and> lb_forward (db_LT d') =
                       Transform (lb_forward (db_LT d)) (w_next w) (w_next w + 1) (w_next w + 1)
                  \<and> lb_axis (db_self d') = Some ax)))"
proof (intro conjI impI)
  assume same: "shape = ShapeTuple s \<and> ax = a"
  then show "legendre_plan (w, self) shape axis dtype = Inr (w, self)"
    using already_planned_iff [OF p, of shape ax] ax by (simp add: legendre_plan_def)
next
  assume diff: "\<not> (shape = ShapeTuple s \<and> ax = a)"
  then have np: "already_planned w self shape ax = Inr False"
    using already_planned_iff [OF p, of shape ax] by simp
  show "\<exists>w' self'. legendre_plan (w, self) shape axis dtype = Inr (w', self')
               \<and> w_next w' = w_next w + 2
               \<and> (\<forall>k. k < w_next w \<longrightarrow> w_store w' k = w_store w k)
               \<and> w_store w' (w_next w) = empty_aligned_zero shape dtype
               \<and> w_store w' (w_next w + 1) = empty_aligned_zero shape dtype
               \<and> lb_axis self' = Some ax
               \<and> lb_forward self' = Transform (lb_forward self) (w_next w) (w_next w + 1) (w_next w + 1)
               \<and> lb_backward self' = Transform (lb_backward self) (w_next w + 1) (w_next w + 1) (w_next w)
               \<and> lb_scalar_product self' =
                    Transform (lb_scalar_product self) (w_next w) (w_next w + 1) (w_next w + 1)"
    unfolding legendre_replan [OF np ax] by simp
next
  assume sync: "planned_for w (db_LT d) s a \<and> db_self d = self"
    and same: "shape = ShapeTuple s \<and> ax = a"
  then show "dirichlet_plan (w, d) shape axis dtype = Inr (w, d)"
    using already_planned_iff [OF p, of shape ax] ax by (simp add: dirichlet_plan_def)
next
  assume sync: "planned_for w (db_LT d) s a \<and> db_self d = self"
    and diff: "\<not> (shape = ShapeTuple s \<and> ax = a)"
  from diff have np: "already_planned w (db_self d) shape ax = Inr False"
    using already_planned_iff [OF p, of shape ax] sync by simp
  from diff sync have npl: "already_planned w (db_LT d) shape ax = Inr False"
    using already_planned_iff [of w "db_LT d" s a shape ax] by simp
  have pa: "plan_axis (AxisInt ax) = Inr ax" by simp
  show "\<exists>w' d'. dirichlet_plan (w, d) shape axis dtype = Inr (w', d')
                  \<and> w_next w' = w_next w + 2
                  \<and> (\<forall>k. k < w_next w \<longrightarrow> w_store w' k = w_store w k)
                  \<and> w_store w' (w_next w) = empty_aligned_zero shape dtype
                  \<and> w_store w' (w_next w + 1) = empty_aligned_zero shape dtype
                  \<and> lb_forward (db_self d') =
                       Transform (lb_forward self) (w_next w) (w_next w + 1) (w_next w + 1)
                  \<and> lb_forward (db_LT d') =
                       Transform (lb_forward (db_LT d)) (w_next w) (w_next w + 1) (w_next w + 1)
                  \<and> lb_axis (db_self d') = Some ax"
    using sync ax np by (simp add: dirichlet_plan_def legendre_replan [OF npl pa])
qed

theorem plan_idempotent_on_shape_and_axis_witness:
  "legendre_plan (plan_w1, plan_s1) (ShapeTuple [8]) (AxisTuple [0]) CHR ''D'' = Inr (plan_w1, plan_s1)
   \<and> (\<exists>w' self'. legendre_plan (plan_w1, plan_s1) (ShapeTuple [16]) (AxisInt 0) CHR ''d'' = Inr (w', self')
        \<and> w_next w' = 4 \<and> w_store w' 2 = empty_aligned_zero (ShapeTuple [16]) CHR ''d''
        \<and> w_store w' 0 = w_store plan_w1 0
        \<and> lb_forward self' = Transform (lb_forward plan_s1) 2 3 3)"
proof -
  have p: "planned_for plan_w1 plan_s1 [8] 0"
    by (simp add: planned_for_def empty_aligned_zero_def)
  have a: "plan_axis (AxisTuple [0]) = Inr 0" "plan_axis (AxisInt 0) = Inr 0" by simp_all
  note th1 = plan_idempotent_on_shape_and_axis [OF p a(1), of "ShapeTuple [8]" "CHR ''D''"]
  note th2 = plan_idempotent_on_shape_and_axis [OF p a(2), of "ShapeTuple [16]" "CHR ''d''"]
  have 1: "legendre_plan (plan_w1, plan_s1) (ShapeTuple [8]) (AxisTuple [0]) CHR ''D''
             = Inr (plan_w1, plan_s1)"
    by (rule mp [OF conjunct1 [OF th1]]) simp
  have d: "\<not> (ShapeTuple [16] = ShapeTuple [8] \<and> (0::int) = 0)" by simp
  from mp [OF conjunct1 [OF conjunct2 [OF th2]] d]
  obtain w' self' where 2:
    "legendre_plan (plan_w1, plan_s1) (ShapeTuple [16]) (AxisInt 0) CHR ''d'' = Inr (w', self')"
    "w_next w' = w_next plan_w1 + 2"
    "\<forall>k. k < w_next plan_w1 \<longrightarrow> w_store w' k = w_store plan_w1 k"
    "w_store w' (w_next plan_w1) = empty_aligned_zero (ShapeTuple [16]) CHR ''d''"
    "lb_forward self' = Transform (lb_forward plan_s1) (w_next plan_w1) (w_next plan_w1 + 1)
       (w_next plan_w1 + 1)"
    by blast
  from 2(2) have n: "w_next w' = 4" by simp
  from 2(3) have s0: "w_store w' 0 = w_store plan_w1 0" by simp
  from 2(4) have s2: "w_store w' 2 = empty_aligned_zero (ShapeTuple [16]) CHR ''d''" by simp
  have e: "(2::nat) + 1 = 3" by simp
  from 2(5) have f: "lb_forward self' = Transform (lb_forward plan_s1) 2 3 3"
    by (simp add: e)
  from 2(1) n s2 s0 f have
    "\<exists>w' self'. legendre_plan (plan_w1, plan_s1) (ShapeTuple [16]) (AxisInt 0) CHR ''d'' = Inr (w', self')
        \<and> w_next w' = 4 \<and> w_store w' 2 = empty_aligned_zero (ShapeTuple [16]) CHR ''d''
        \<and> w_store w' 0 = w_store plan_w1 0
        \<and> lb_forward self' = Transform (lb_forward plan_s1) 2 3 3"
    by (intro exI [of _ w'] exI [of _ self'] conjI)
  with 1 show ?thesis by (rule conjI)
qed

text \<open>
  C9 as stated fails when only the dtype differs: a basis planned for \<open>(8,)\<close>, axis 0
  and dtype \<open>d\<close> is left as it is by \<^verbatim>\<open>plan\<close> with dtype \<open>D\<close>; its arrays keep the
  dtype \<open>d\<close>.
\<close>

theorem replan_other_dtype_is_noop:
  "legendre_plan (plan_w0, legendre_unplanned) (ShapeTuple [8]) (AxisTuple [0]) CHR ''d''
     = Inr (plan_w1, plan_s1)
   \<and> legendre_plan (plan_w1, plan_s1) (ShapeTuple [8]) (AxisTuple [0]) CHR ''D''
     = Inr (plan_w1, plan_s1)
   \<and> buf_dtype (w_store plan_w1 0) = CHR ''d'' \<and> buf_dtype (w_store plan_w1 1) = CHR ''d''
   \<and> CHR ''d'' \<noteq> CHR ''D''"
  by (simp add: legendre_plan_def already_planned_def alloc_def legendre_unplanned_def
        empty_aligned_zero_def Let_def fun_upd_twist)

subsection \<open>The forward transform\<close>



lemma length_scale [simp]: "length (scale c xs) = length xs"
  by (simp add: scale_def)




lemma scale_zero [simp]: "scale c (replicate n 0) = replicate n 0"
  by (simp add: scale_def)












lemma returned_Inl [simp]: "returned (Inl e) = Inl e"
  by (simp add: returned_def)

lemma returned_Inr [simp]: "returned (Inr (v, s)) = Inr v"
  by (simp add: returned_def)

lemma bind_err_unit [simp]: "bind_err m Inr = m"
  by (cases m) simp_all






lemma complex_scale_eval [simp]: "Complex a b * complex_of_real c = Complex (a * c) (b * c)"
  by (simp add: complex_eq_iff)




end
